theory Spec2Isabelle
  imports Complex_Main
begin

section \<open>Python text primitives used by monitor.py\<close>

text \<open>
  A Python \<open>str\<close> is modelled as a \<open>string\<close> whose characters stand for code points
  below 256. The whitespace set is the one of \<open>str.isspace\<close> (used by \<open>strip\<close>,
  \<open>split()\<close> and \<open>int\<close>), the line boundary set the one of \<open>str.splitlines\<close>, both
  restricted to code points below 256.
\<close>

definition is_space :: "char \<Rightarrow> bool" where
  "is_space c =
     (let n = (of_char c :: nat)
      in (9 \<le> n \<and> n \<le> 13) \<or> (28 \<le> n \<and> n \<le> 32) \<or> n = 133 \<or> n = 160)"

definition is_linebreak :: "char \<Rightarrow> bool" where
  "is_linebreak c =
     (let n = (of_char c :: nat)
      in (10 \<le> n \<and> n \<le> 13) \<or> (28 \<le> n \<and> n \<le> 30) \<or> n = 133)"

definition strip :: "string \<Rightarrow> string" where
  "strip s = rev (dropWhile is_space (rev (dropWhile is_space s)))"

text \<open>
  \<open>str.splitlines()\<close>: a carriage return followed by a line feed is one boundary;
  no empty last line is produced after a final boundary.
\<close>

fun splitlines_from :: "string \<Rightarrow> string \<Rightarrow> string list" where
  "splitlines_from cur [] = (if cur = [] then [] else [cur])"
| "splitlines_from cur (c # cs) =
     (if c = CHR 0x0D \<and> cs \<noteq> [] \<and> hd cs = CHR 0x0A then cur # splitlines_from [] (tl cs)
      else if is_linebreak c then cur # splitlines_from [] cs
      else splitlines_from (cur @ [c]) cs)"

definition splitlines :: "string \<Rightarrow> string list" where
  "splitlines s = splitlines_from [] s"

fun startswith :: "string \<Rightarrow> string \<Rightarrow> bool" where
  "startswith s [] = True"
| "startswith [] (p # ps) = False"
| "startswith (c # cs) (p # ps) = (c = p \<and> startswith cs ps)"

text \<open>The substring test \<open>sub in s\<close>.\<close>

fun contains :: "string \<Rightarrow> string \<Rightarrow> bool" where
  "contains [] sub = (sub = [])"
| "contains (c # cs) sub = (startswith (c # cs) sub \<or> contains cs sub)"

text \<open>\<open>s.split(sep, 1)\<close> for a one-character separator: one or two pieces.\<close>

definition split1 :: "char \<Rightarrow> string \<Rightarrow> string list" where
  "split1 sep s =
     (case dropWhile (\<lambda>c. c \<noteq> sep) s of
        [] \<Rightarrow> [s]
      | _ # rest \<Rightarrow> [takeWhile (\<lambda>c. c \<noteq> sep) s, rest])"

text \<open>\<open>s.split()\<close>: the maximal runs of characters that are not whitespace.\<close>

fun split_ws_from :: "string \<Rightarrow> string \<Rightarrow> string list" where
  "split_ws_from cur [] = (if cur = [] then [] else [cur])"
| "split_ws_from cur (c # cs) =
     (if is_space c then (if cur = [] then split_ws_from [] cs else cur # split_ws_from [] cs)
      else split_ws_from (cur @ [c]) cs)"

definition split_ws :: "string \<Rightarrow> string list" where
  "split_ws s = split_ws_from [] s"

fun join :: "string \<Rightarrow> string list \<Rightarrow> string" where
  "join sep [] = []"
| "join sep [x] = x"
| "join sep (x # y # ys) = x @ sep @ join sep (y # ys)"

subsection \<open>Exceptions\<close>

text \<open>
  An exception is a value; the string is what \<open>str(e)\<close> gives. Every \<open>raise\<close> of the
  program and of the library calls it makes is a branch that returns \<open>Inl\<close>.
\<close>

datatype error =
    TimeoutExpired string
  | IndexError string
  | TypeError string
  | ValueError string
  | OtherException string

fun error_str :: "error \<Rightarrow> string" where
  "error_str (TimeoutExpired m) = m"
| "error_str (IndexError m) = m"
| "error_str (TypeError m) = m"
| "error_str (ValueError m) = m"
| "error_str (OtherException m) = m"

fun is_ValueError :: "error \<Rightarrow> bool" where
  "is_ValueError (ValueError m) = True"
| "is_ValueError e = False"

fun is_TimeoutExpired :: "error \<Rightarrow> bool" where
  "is_TimeoutExpired (TimeoutExpired m) = True"
| "is_TimeoutExpired e = False"

text \<open>List indexing \<open>xs[i]\<close> with a natural index: out of range raises.\<close>

definition index :: "'a list \<Rightarrow> nat \<Rightarrow> error + 'a" where
  "index xs i = (if i < length xs then Inr (xs ! i) else Inl (IndexError ''list index out of range''))"

subsection \<open>Integers: \<open>int(s)\<close> and \<open>str(n)\<close>\<close>

definition digit_val :: "char \<Rightarrow> nat option" where
  "digit_val c =
     (let n = (of_char c :: nat) in if 48 \<le> n \<and> n \<le> 57 then Some (n - 48) else None)"

text \<open>
  The digits of a decimal literal, where single underscores may stand between digits.
  The flag says whether the previous character was a digit.
\<close>

fun int_digits :: "nat \<Rightarrow> bool \<Rightarrow> string \<Rightarrow> nat option" where
  "int_digits acc prev [] = (if prev then Some acc else None)"
| "int_digits acc prev (c # cs) =
     (case digit_val c of
        Some d \<Rightarrow> int_digits (acc * 10 + d) True cs
      | None \<Rightarrow> if c = CHR ''_'' \<and> prev then int_digits acc False cs else None)"

text \<open>
  \<open>int(s)\<close> in base 10: surrounding whitespace is dropped, one sign is allowed, then
  comes the run of digits and underscores, and nothing may follow it; anything else
  raises ValueError. Python integers are unbounded, but a run with more digits than the
  interpreter's limit raises ValueError as well: the limit is 4300 by default and the
  program does not change it. The digits are counted without the underscores, leading
  zeros included. The text of the ValueError is abridged.
\<close>

definition max_str_digits :: nat where
  "max_str_digits = 4300"

definition digit_count :: "string \<Rightarrow> nat" where
  "digit_count s = length (filter (\<lambda>c. digit_val c \<noteq> None) s)"

definition digit_run :: "string \<Rightarrow> string" where
  "digit_run s = takeWhile (\<lambda>c. digit_val c \<noteq> None \<or> c = CHR ''_'') s"

definition py_int :: "string \<Rightarrow> error + int" where
  "py_int s =
     (let t = strip s;
          negative = (t \<noteq> [] \<and> hd t = CHR ''-'');
          body = (if t \<noteq> [] \<and> (hd t = CHR ''-'' \<or> hd t = CHR ''+'') then tl t else t);
          run = digit_run body
      in case int_digits 0 False run of
           None \<Rightarrow> Inl (ValueError ''invalid literal for int() with base 10'')
         | Some n \<Rightarrow>
             if max_str_digits < digit_count run
             then Inl (ValueError ''Exceeds the limit (4300 digits) for integer string conversion'')
             else if run \<noteq> body
             then Inl (ValueError ''invalid literal for int() with base 10'')
             else Inr (if negative then - int n else int n))"

definition digit_char :: "nat \<Rightarrow> char" where
  "digit_char d = char_of (48 + d)"

fun str_nat :: "nat \<Rightarrow> string" where
  "str_nat n = (if n < 10 then [digit_char n] else str_nat (n div 10) @ [digit_char (n mod 10)])"

declare str_nat.simps [simp del]

definition str_int :: "int \<Rightarrow> string" where
  "str_int n = (if n < 0 then CHR ''-'' # str_nat (nat (- n)) else str_nat (nat n))"

subsection \<open>Floats\<close>

text \<open>
  A Python float is an IEEE double: a finite value (every one of them is a rational
  number), an infinity or a NaN. Comparison and \<open>abs\<close> are exact on doubles, so they
  are defined here; parsing and printing round, and are taken from the runtime below.
\<close>

datatype pyfloat = Finite rat | PInf | NInf | NaN

fun fabs :: "pyfloat \<Rightarrow> pyfloat" where
  "fabs (Finite q) = Finite \<bar>q\<bar>"
| "fabs PInf = PInf"
| "fabs NInf = PInf"
| "fabs NaN = NaN"

text \<open>\<open>a < b\<close> on floats: false as soon as one side is a NaN.\<close>

fun fless :: "pyfloat \<Rightarrow> pyfloat \<Rightarrow> bool" where
  "fless (Finite x) (Finite y) = (x < y)"
| "fless (Finite x) PInf = True"
| "fless NInf (Finite y) = True"
| "fless NInf PInf = True"
| "fless a b = False"

definition fgt :: "pyfloat \<Rightarrow> pyfloat \<Rightarrow> bool" where
  "fgt a b = fless b a"

text \<open>\<open>a <= b\<close> on floats: less or equal, and false as soon as one side is a NaN.\<close>

definition fle :: "pyfloat \<Rightarrow> pyfloat \<Rightarrow> bool" where
  "fle a b = (a \<noteq> NaN \<and> b \<noteq> NaN \<and> (fless a b \<or> a = b))"

definition fge :: "pyfloat \<Rightarrow> pyfloat \<Rightarrow> bool" where
  "fge a b = fle b a"

subsection \<open>Decoded JSON values\<close>

datatype json =
    JNull
  | JBool bool
  | JInt int
  | JFloat pyfloat
  | JStr string
  | JArr "json list"
  | JObj "(string \<times> json) list"

subsection \<open>The library calls the program does not define\<close>

text \<open>
  The runtime gathers the library functions whose results the program uses and whose
  definition is outside the repository:
  \<^item> \<open>py_float\<close>: \<open>float(s)\<close>, \<open>None\<close> when it raises ValueError;
  \<^item> \<open>float_str\<close>: the text an f-string gives for a float;
  \<^item> \<open>json_loads\<close>: \<open>json.loads\<close> on a line whose first character is an opening
    brace, where a successful decode is always an object, here a map from keys to
    values; \<open>None\<close> when it raises;
  \<^item> \<open>json_repr\<close>: the text an f-string gives for a decoded list or object.
\<close>

record runtime =
  py_float :: "string \<Rightarrow> pyfloat option"
  float_str :: "pyfloat \<Rightarrow> string"
  json_loads :: "string \<Rightarrow> (string \<rightharpoonup> json) option"
  json_repr :: "json \<Rightarrow> string"

section \<open>The report parsers\<close>

subsection \<open>parse_tracking\<close>

record tracking =
  leap_status :: "string option"
  stratum :: "int option"
  last_offset_sec :: "pyfloat option"

text \<open>
  The body of the loop of \<open>parse_tracking\<close>, on one raw line. The first branch has no
  handler; the second one handles ValueError only, so the IndexError of \<open>[1]\<close> on a line
  without a colon leaves the function; the third one handles every exception.
\<close>

definition parse_tracking_line :: "runtime \<Rightarrow> tracking \<Rightarrow> string \<Rightarrow> error + tracking" where
  "parse_tracking_line rt result raw =
     (let line = strip raw in
      if startswith line ''Leap status'' then
        (case index (split1 CHR '':'' line) 1 of
           Inl e \<Rightarrow> Inl e
         | Inr v \<Rightarrow> Inr (result\<lparr>leap_status := Some (strip v)\<rparr>))
      else if startswith line ''Stratum'' then
        (case (case index (split1 CHR '':'' line) 1 of
                 Inl e \<Rightarrow> Inl e
               | Inr v \<Rightarrow> py_int (strip v)) of
           Inl e \<Rightarrow> if is_ValueError e then Inr result else Inl e
         | Inr n \<Rightarrow> Inr (result\<lparr>stratum := Some n\<rparr>))
      else if startswith line ''Last offset'' then
        (case index (split1 CHR '':'' line) 1 of
           Inl e \<Rightarrow> Inr result
         | Inr v \<Rightarrow>
             (case index (split_ws (strip v)) 0 of
                Inl e \<Rightarrow> Inr result
              | Inr val \<Rightarrow>
                  (case py_float rt val of
                     None \<Rightarrow> Inr result
                   | Some f \<Rightarrow> Inr (result\<lparr>last_offset_sec := Some f\<rparr>))))
      else Inr result)"

fun parse_tracking_lines :: "runtime \<Rightarrow> tracking \<Rightarrow> string list \<Rightarrow> error + tracking" where
  "parse_tracking_lines rt result [] = Inr result"
| "parse_tracking_lines rt result (raw # rest) =
     (case parse_tracking_line rt result raw of
        Inl e \<Rightarrow> Inl e
      | Inr result' \<Rightarrow> parse_tracking_lines rt result' rest)"

definition parse_tracking :: "runtime \<Rightarrow> string \<Rightarrow> error + tracking" where
  "parse_tracking rt text =
     parse_tracking_lines rt
       \<lparr>leap_status = None, stratum = None, last_offset_sec = None\<rparr> (splitlines text)"

subsection \<open>parse_sources\<close>

record sources =
  has_selected :: bool
  selected_line :: "string option"
  total_sources :: nat

definition is_header :: "string \<Rightarrow> bool" where
  "is_header s = (s = [] \<or> startswith s ''MS'' \<or> startswith s ''Name/IP'')"

definition is_selected :: "string \<Rightarrow> bool" where
  "is_selected s = (startswith s ''^*'' \<or> contains s ''* '' \<or> contains s '' ^* '')"

fun parse_sources_lines :: "sources \<Rightarrow> string list \<Rightarrow> sources" where
  "parse_sources_lines out [] = out"
| "parse_sources_lines out (raw # rest) =
     (let s = strip raw in
      if is_header s then parse_sources_lines out rest
      else
        let out1 = out\<lparr>total_sources := total_sources out + 1\<rparr>;
            out2 = (if is_selected s
                    then out1\<lparr>has_selected := True, selected_line := Some s\<rparr>
                    else out1)
        in parse_sources_lines out2 rest)"

definition parse_sources :: "string \<Rightarrow> sources" where
  "parse_sources text =
     parse_sources_lines
       \<lparr>has_selected = False, selected_line = None, total_sources = 0\<rparr> (splitlines text)"

subsection \<open>parse_gpspipe_output\<close>

text \<open>
  \<open>obj.get(k)\<close> is \<open>None\<close> when the key is absent and when its value is JSON null.
\<close>

definition json_get :: "(string \<rightharpoonup> json) \<Rightarrow> string \<Rightarrow> json option" where
  "json_get obj k = (case obj k of None \<Rightarrow> None | Some JNull \<Rightarrow> None | Some v \<Rightarrow> Some v)"

text \<open>Truth value of a decoded value, as \<open>or\<close> and \<open>if\<close> test it.\<close>

fun truthy :: "json \<Rightarrow> bool" where
  "truthy JNull = False"
| "truthy (JBool b) = b"
| "truthy (JInt n) = (n \<noteq> 0)"
| "truthy (JFloat f) = (f \<noteq> Finite 0)"
| "truthy (JStr s) = (s \<noteq> [])"
| "truthy (JArr xs) = (xs \<noteq> [])"
| "truthy (JObj kvs) = (kvs \<noteq> [])"

text \<open>\<open>x or y\<close>, where \<open>None\<close> stands for Python's None.\<close>

definition py_or :: "json option \<Rightarrow> json option \<Rightarrow> json option" where
  "py_or x y = (case x of None \<Rightarrow> y | Some v \<Rightarrow> if truthy v then Some v else y)"

definition quoted :: "string \<Rightarrow> string" where
  "quoted s = [CHR 0x27] @ s @ [CHR 0x27]"

definition not_supported :: "string \<Rightarrow> error" where
  "not_supported ty =
     TypeError (quoted ''>='' @ '' not supported between instances of '' @ quoted ty
                @ '' and '' @ quoted ''int'')"

text \<open>
  \<open>mode >= 2\<close> on a decoded value: numbers and booleans compare with 2, anything else
  raises TypeError.
\<close>

fun ge2 :: "json \<Rightarrow> error + bool" where
  "ge2 (JInt n) = Inr (2 \<le> n)"
| "ge2 (JFloat f) = Inr (fge f (Finite 2))"
| "ge2 (JBool b) = Inr False"
| "ge2 JNull = Inl (not_supported ''NoneType'')"
| "ge2 (JStr s) = Inl (not_supported ''str'')"
| "ge2 (JArr xs) = Inl (not_supported ''list'')"
| "ge2 (JObj kvs) = Inl (not_supported ''dict'')"

text \<open>The text an f-string gives for a decoded value.\<close>

definition json_str :: "runtime \<Rightarrow> json \<Rightarrow> string" where
  "json_str rt v =
     (case v of
        JNull \<Rightarrow> ''None''
      | JBool b \<Rightarrow> (if b then ''True'' else ''False'')
      | JInt n \<Rightarrow> str_int n
      | JFloat f \<Rightarrow> float_str rt f
      | JStr s \<Rightarrow> s
      | _ \<Rightarrow> json_repr rt v)"

text \<open>
  The integer a number or boolean is equal to as a dictionary key, if any: \<open>2.0\<close> and
  \<open>2\<close> are the same key, \<open>True\<close> is the key 1.
\<close>

definition mode_key :: "json \<Rightarrow> int option" where
  "mode_key m =
     (case m of
        JInt n \<Rightarrow> Some n
      | JBool b \<Rightarrow> Some (if b then 1 else 0)
      | JFloat (Finite q) \<Rightarrow> (if q = of_int \<lfloor>q\<rfloor> then Some \<lfloor>q\<rfloor> else None)
      | _ \<Rightarrow> None)"

definition mode_txt :: "runtime \<Rightarrow> json \<Rightarrow> string" where
  "mode_txt rt m =
     (case mode_key m of
        None \<Rightarrow> json_str rt m
      | Some k \<Rightarrow>
          if k = 0 then ''Unknown'' else if k = 1 then ''No fix''
          else if k = 2 then ''2D fix'' else if k = 3 then ''3D fix'' else json_str rt m)"

record gps_state =
  has_fix :: bool
  tpv_count :: nat
  last_mode :: "json option"
  last_time :: "json option"
  last_lat :: "json option"
  last_lon :: "json option"

text \<open>
  The body of the loop of \<open>parse_gpspipe_output\<close>, on one line. Only the decode is
  inside the \<open>try\<close>; the comparison \<open>mode >= 2\<close> is not, and \<open>last_mode\<close> is assigned
  before it.
\<close>

definition gps_line :: "runtime \<Rightarrow> gps_state \<Rightarrow> string \<Rightarrow> error + gps_state" where
  "gps_line rt st raw =
     (let line = strip raw in
      if line = [] \<or> \<not> startswith line ''{'' then Inr st
      else
        (case json_loads rt line of
           None \<Rightarrow> Inr st
         | Some obj \<Rightarrow>
             if json_get obj ''class'' = Some (JStr ''TPV'') then
               (let st1 = st\<lparr>tpv_count := tpv_count st + 1\<rparr> in
                case (case json_get obj ''mode'' of
                        None \<Rightarrow> Inr st1
                      | Some mode \<Rightarrow>
                          (case ge2 mode of
                             Inl e \<Rightarrow> Inl e
                           | Inr b \<Rightarrow> Inr (st1\<lparr>last_mode := Some mode, has_fix := b\<rparr>))) of
                  Inl e \<Rightarrow> Inl e
                | Inr st2 \<Rightarrow>
                    Inr (st2\<lparr>last_time := py_or (json_get obj ''time'') (last_time st2),
                              last_lat := py_or (json_get obj ''lat'') (last_lat st2),
                              last_lon := py_or (json_get obj ''lon'') (last_lon st2)\<rparr>))
             else Inr st))"

fun gps_lines :: "runtime \<Rightarrow> gps_state \<Rightarrow> string list \<Rightarrow> error + gps_state" where
  "gps_lines rt st [] = Inr st"
| "gps_lines rt st (raw # rest) =
     (case gps_line rt st raw of
        Inl e \<Rightarrow> Inl e
      | Inr st' \<Rightarrow> gps_lines rt st' rest)"

definition gps_summary_parts :: "runtime \<Rightarrow> gps_state \<Rightarrow> json \<Rightarrow> string list" where
  "gps_summary_parts rt st m =
     [''mode='' @ mode_txt rt m]
     @ (case last_time st of
          None \<Rightarrow> []
        | Some t \<Rightarrow> if truthy t then [''time='' @ json_str rt t] else [])
     @ (case last_lat st of
          None \<Rightarrow> []
        | Some la \<Rightarrow>
            (case last_lon st of
               None \<Rightarrow> []
             | Some lo \<Rightarrow> [''pos=('' @ json_str rt la @ '','' @ json_str rt lo @ '')'']))"

text \<open>The result is \<open>(has_fix, summary, tpv_count, last_mode)\<close>.\<close>

definition gps_result :: "runtime \<Rightarrow> gps_state \<Rightarrow> bool \<times> string \<times> nat \<times> json option" where
  "gps_result rt st =
     (case last_mode st of
        Some m \<Rightarrow>
          (has_fix st, ''GPS(TPV): '' @ join '' | '' (gps_summary_parts rt st m),
           tpv_count st, Some m)
      | None \<Rightarrow> (False, [], tpv_count st, None))"

definition gps_init :: gps_state where
  "gps_init =
     \<lparr>has_fix = False, tpv_count = 0, last_mode = None,
      last_time = None, last_lat = None, last_lon = None\<rparr>"

definition parse_gpspipe_output ::
  "runtime \<Rightarrow> string \<Rightarrow> error + (bool \<times> string \<times> nat \<times> json option)" where
  "parse_gpspipe_output rt text =
     (case gps_lines rt gps_init (splitlines text) of
        Inl e \<Rightarrow> Inl e
      | Inr st \<Rightarrow> Inr (gps_result rt st))"

section \<open>Configuration, the remote host and the trace of effects\<close>

text \<open>The module-level settings that the modelled functions read.\<close>

record config =
  HOST :: string
  IP_FALLBACK :: string
  CHECK_INTERVAL :: int
  MAX_ACCEPTABLE_STRATUM :: int
  MAX_ABS_OFFSET_SEC :: pyfloat
  CGPS_TIMEOUT_SEC :: int
  GPSPIPE_SAMPLES :: int
  DB_URL :: "string option"

record completed_process =
  returncode :: int
  stdout :: string
  stderr :: string

text \<open>
  What \<open>subprocess.run\<close> does for one call: it returns a completed process or raises
  (TimeoutExpired when the timeout passes).
\<close>

datatype response = Completed completed_process | Raised error

text \<open>The row that \<open>db_insert_sample\<close> passes to the INSERT statement.\<close>

record metric_row =
  col_last_offset_sec :: "pyfloat option"
  col_stratum :: "int option"
  col_total_sources :: nat
  col_leap_status :: "string option"
  col_gps_mode :: string
  col_selected_source :: "string option"
  col_gps_summary :: string

text \<open>
  The world outside the process: \<open>remote n cmd\<close> is the outcome of the \<open>n\<close>-th remote
  command of the run (counted from 0), and \<open>db_fault row\<close> is the text of the exception
  the database raises for the row, if it raises one.
\<close>

record env =
  remote :: "nat \<Rightarrow> string \<Rightarrow> response"
  db_fault :: "metric_row \<Rightarrow> string option"

datatype level = INFO | WARNING | ERROR

text \<open>
  The effects of the program, in the order they happen: a remote command with its
  timeout, a log record of level info or above (debug records are left out), a call of
  \<open>send_email\<close> (subject and body), an executed INSERT, a sleep.
\<close>

datatype event =
    Ssh string int
  | Log level string
  | Email string string
  | DbInsert metric_row
  | Sleep int

fun is_Ssh :: "event \<Rightarrow> bool" where
  "is_Ssh (Ssh cmd timeout) = True"
| "is_Ssh ev = False"

fun is_Email :: "event \<Rightarrow> bool" where
  "is_Email (Email subject body) = True"
| "is_Email ev = False"

fun is_Sleep :: "event \<Rightarrow> bool" where
  "is_Sleep (Sleep secs) = True"
| "is_Sleep ev = False"

definition ssh_calls :: "event list \<Rightarrow> event list" where
  "ssh_calls tr = filter is_Ssh tr"

section \<open>The sampler\<close>

text \<open>\<open>_head(text, n)\<close>: the first \<open>n\<close> lines that are not blank, joined.\<close>

definition head :: "string \<Rightarrow> nat \<Rightarrow> string" where
  "head text n = join '' / '' (take n (filter (\<lambda>l. strip l \<noteq> []) (splitlines text)))"

text \<open>
  \<open>run_ssh\<close>: the call is recorded, then the remote host answers. A timeout is logged
  and raised again; any other exception of \<open>subprocess.run\<close> propagates.
\<close>

definition run_ssh ::
  "env \<Rightarrow> string \<Rightarrow> int \<Rightarrow> event list \<Rightarrow> (error + completed_process) \<times> event list" where
  "run_ssh ev cmd timeout tr =
     (case remote ev (length (ssh_calls tr)) cmd of
        Raised e \<Rightarrow>
          if is_TimeoutExpired e
          then (Inl e, tr @ [Ssh cmd timeout,
                  Log ERROR (''SSH TIMEOUT after '' @ str_int timeout @ ''s: cmd='' @ cmd)])
          else (Inl e, tr @ [Ssh cmd timeout])
      | Completed cp \<Rightarrow> (Inr cp, tr @ [Ssh cmd timeout]))"

definition remote_cmd :: "config \<Rightarrow> string" where
  "remote_cmd cfg =
     ''bash -lc '' @ [CHR 0x27]
     @ ''if ! command -v gpspipe >/dev/null 2>&1; then echo gpspipe-not-found >&2; exit 127; fi; ''
     @ ''if command -v timeout >/dev/null 2>&1; then ''
     @ ''  timeout '' @ str_int (CGPS_TIMEOUT_SEC cfg) @ '' gpspipe -w -n ''
     @ str_int (GPSPIPE_SAMPLES cfg) @ ''; ''
     @ ''else ''
     @ ''  gpspipe -w -n '' @ str_int (GPSPIPE_SAMPLES cfg) @ ''; ''
     @ ''fi'' @ [CHR 0x27]"

definition run_gps_status ::
  "runtime \<Rightarrow> config \<Rightarrow> env \<Rightarrow> event list \<Rightarrow> (error + bool \<times> string) \<times> event list" where
  "run_gps_status rt cfg ev tr =
     (case run_ssh ev (remote_cmd cfg) (CGPS_TIMEOUT_SEC cfg + 3) tr of
        (Inl e, tr1) \<Rightarrow>
          if is_TimeoutExpired e then (Inr (False, ''gpspipe timed out''), tr1)
          else (Inl e, tr1)
      | (Inr cp, tr1) \<Rightarrow>
          if returncode cp = 127 \<or> contains (stderr cp) ''gpspipe-not-found''
          then (Inr (False, ''gpspipe not found on remote host''),
                tr1 @ [Log WARNING ''gpspipe binary not found on remote''])
          else
            (let out = stdout cp @ stderr cp in
             case parse_gpspipe_output rt out of
               Inl e \<Rightarrow> (Inl e, tr1)
             | Inr (fix, summary, count, mode) \<Rightarrow>
                 if summary \<noteq> [] then (Inr (fix, summary), tr1)
                 else (Inr (False, if head out 3 \<noteq> [] then head out 3
                                   else ''no TPV data from gpspipe''), tr1)))"

section \<open>The health evaluation\<close>

text \<open>The text an f-string gives for an optional value.\<close>

definition opt_str :: "('a \<Rightarrow> string) \<Rightarrow> 'a option \<Rightarrow> string" where
  "opt_str f x = (case x of None \<Rightarrow> ''None'' | Some v \<Rightarrow> f v)"

text \<open>
  The six tests of \<open>check_ntp_health\<close>, each appending to \<open>problems\<close>, in the order
  of the source.
\<close>

definition health_problems ::
  "runtime \<Rightarrow> config \<Rightarrow> tracking \<Rightarrow> sources \<Rightarrow> bool \<Rightarrow> string list" where
  "health_problems rt cfg tracking srcs gps_ok =
     (let leap = leap_status tracking;
          strat = stratum tracking;
          offset = last_offset_sec tracking;
          problems = [];
          problems = (if (case leap of None \<Rightarrow> True | Some l \<Rightarrow> \<not> contains l ''Normal'')
                      then problems @ [''Leap status not Normal (got '' @ opt_str id leap @ '')'']
                      else problems);
          problems = (if (case strat of None \<Rightarrow> True
                          | Some s \<Rightarrow> s > MAX_ACCEPTABLE_STRATUM cfg)
                      then problems @ [''Stratum too high (got '' @ opt_str str_int strat
                             @ '', max '' @ str_int (MAX_ACCEPTABLE_STRATUM cfg) @ '')'']
                      else problems);
          problems = (if (case offset of None \<Rightarrow> True
                          | Some x \<Rightarrow> fgt (fabs x) (MAX_ABS_OFFSET_SEC cfg))
                      then problems @ [''Time offset too large (abs ''
                             @ opt_str (float_str rt) offset @ ''s > ''
                             @ float_str rt (MAX_ABS_OFFSET_SEC cfg) @ ''s)'']
                      else problems);
          problems = (if \<not> has_selected srcs
                      then problems @ [''No selected NTP source in chronyc sources'']
                      else problems);
          problems = (if total_sources srcs = 0
                      then problems @ [''No NTP sources visible in chronyc sources'']
                      else problems);
          problems = (if \<not> gps_ok
                      then problems @ [''GPS has no fix via gpspipe'']
                      else problems)
      in problems)"

definition health_detail ::
  "runtime \<Rightarrow> config \<Rightarrow> tracking \<Rightarrow> sources \<Rightarrow> string \<Rightarrow> string list" where
  "health_detail rt cfg tracking srcs gps_summary =
     [''Host: '' @ HOST cfg @ '' ('' @ IP_FALLBACK cfg @ '')'',
      ''Leap: '' @ opt_str id (leap_status tracking),
      ''Stratum: '' @ opt_str str_int (stratum tracking),
      ''Last offset: '' @ opt_str (float_str rt) (last_offset_sec tracking) @ '' sec'',
      ''Selected source: '' @ opt_str id (selected_line srcs),
      ''Total sources: '' @ str_int (int (total_sources srcs)),
      ''GPS: '' @ gps_summary]"

text \<open>Lines 206 to 232 of monitor.py: the verdict from the three samples.\<close>

definition health_verdict ::
  "runtime \<Rightarrow> config \<Rightarrow> tracking \<Rightarrow> sources \<Rightarrow> bool \<Rightarrow> string \<Rightarrow> bool \<times> string" where
  "health_verdict rt cfg tracking srcs gps_ok gps_summary =
     (let problems = health_problems rt cfg tracking srcs gps_ok;
          detail = health_detail rt cfg tracking srcs gps_summary
      in if problems \<noteq> []
         then (False, join '' | '' problems @ '' || '' @ join '' | '' detail)
         else (True, ''OK | '' @ join '' | '' detail))"

definition failed_on :: "config \<Rightarrow> string \<Rightarrow> string \<Rightarrow> string" where
  "failed_on cfg what err =
     ''SSH/chronyc '' @ what @ '' failed on '' @ HOST cfg @ '' ('' @ IP_FALLBACK cfg @ ''): ''
     @ head err 3"

definition check_ntp_health ::
  "runtime \<Rightarrow> config \<Rightarrow> env \<Rightarrow> event list \<Rightarrow> (error + bool \<times> string) \<times> event list" where
  "check_ntp_health rt cfg ev tr =
     (case run_ssh ev ''chronyc tracking'' 10 tr of
        (Inl e, tr1) \<Rightarrow> (Inl e, tr1)
      | (Inr trk, tr1) \<Rightarrow>
          if returncode trk \<noteq> 0
          then (Inr (False, failed_on cfg ''tracking'' (stderr trk)), tr1)
          else
            (case parse_tracking rt (stdout trk) of
               Inl e \<Rightarrow> (Inl e, tr1)
             | Inr tracking \<Rightarrow>
                 (case run_ssh ev ''chronyc sources -n'' 10 tr1 of
                    (Inl e, tr2) \<Rightarrow> (Inl e, tr2)
                  | (Inr sr, tr2) \<Rightarrow>
                      if returncode sr \<noteq> 0
                      then (Inr (False, failed_on cfg ''sources'' (stderr sr)), tr2)
                      else
                        (let srcs = parse_sources (stdout sr) in
                         case run_gps_status rt cfg ev tr2 of
                           (Inl e, tr3) \<Rightarrow> (Inl e, tr3)
                         | (Inr (gps_ok, gps_summary), tr3) \<Rightarrow>
                             (Inr (health_verdict rt cfg tracking srcs gps_ok gps_summary),
                              tr3)))))"

section \<open>Persistence and the polling loop\<close>

definition db_insert_sample ::
  "config \<Rightarrow> env \<Rightarrow> tracking \<Rightarrow> sources \<Rightarrow> bool \<Rightarrow> string \<Rightarrow> event list \<Rightarrow> event list" where
  "db_insert_sample cfg ev tracking srcs gps_ok gps_summary tr =
     (if DB_URL cfg = None \<or> DB_URL cfg = Some [] then tr
      else
        (let row = \<lparr>col_last_offset_sec = last_offset_sec tracking,
                    col_stratum = stratum tracking,
                    col_total_sources = total_sources srcs,
                    col_leap_status = leap_status tracking,
                    col_gps_mode = (if gps_ok then ''3D fix'' else ''No fix''),
                    col_selected_source = selected_line srcs,
                    col_gps_summary = gps_summary\<rparr>
         in case db_fault ev row of
              Some m \<Rightarrow> tr @ [Log ERROR (''DB write failed: '' @ m)]
            | None \<Rightarrow> tr @ [DbInsert row]))"

definition collection_error :: "error \<Rightarrow> event" where
  "collection_error e = Log ERROR (''DB collection/write error: '' @ error_str e)"

text \<open>
  The inner \<open>try\<close> of the healthy branch of \<open>main\<close>: the three commands are run once
  more (their exit codes are not tested), and every exception ends in one log record.
\<close>

definition collect_and_insert :: "runtime \<Rightarrow> config \<Rightarrow> env \<Rightarrow> event list \<Rightarrow> event list" where
  "collect_and_insert rt cfg ev tr =
     (case run_ssh ev ''chronyc tracking'' 10 tr of
        (Inl e, tr1) \<Rightarrow> tr1 @ [collection_error e]
      | (Inr trk, tr1) \<Rightarrow>
          (case run_ssh ev ''chronyc sources -n'' 10 tr1 of
             (Inl e, tr2) \<Rightarrow> tr2 @ [collection_error e]
           | (Inr sr, tr2) \<Rightarrow>
               (case parse_tracking rt (stdout trk) of
                  Inl e \<Rightarrow> tr2 @ [collection_error e]
                | Inr tracking \<Rightarrow>
                    (let srcs = parse_sources (stdout sr) in
                     case run_gps_status rt cfg ev tr2 of
                       (Inl e, tr3) \<Rightarrow> tr3 @ [collection_error e]
                     | (Inr (gps_ok, gps_summary), tr3) \<Rightarrow>
                         db_insert_sample cfg ev tracking srcs gps_ok gps_summary tr3))))"

text \<open>The \<open>try\<close> statement of the loop of \<open>main\<close>, with its two handlers.\<close>

definition cycle :: "runtime \<Rightarrow> config \<Rightarrow> env \<Rightarrow> event list \<Rightarrow> event list" where
  "cycle rt cfg ev tr =
     (case check_ntp_health rt cfg ev tr of
        (Inr (ok, detail), tr1) \<Rightarrow>
          if ok then collect_and_insert rt cfg ev (tr1 @ [Log INFO detail])
          else tr1 @ [Log ERROR detail,
                      Email ''NTP health alert on observium.andrea-house.com''
                        (detail @ [CHR 0x0A])]
      | (Inl e, tr1) \<Rightarrow>
          if is_TimeoutExpired e
          then (let msg = ''SSH command timed out contacting '' @ HOST cfg
                          @ '' ('' @ IP_FALLBACK cfg @ '')''
                in tr1 @ [Log ERROR msg, Email ''NTP health alert timeout'' msg])
          else (let msg = ''Unexpected error during NTP check: '' @ error_str e
                in tr1 @ [Log ERROR msg, Email ''NTP health alert exception'' msg]))"



section \<open>Concrete inputs for the examples\<close>

text \<open>
  A runtime for the examples: it decodes the literals listed here as Python does (the
  floats are exact binary fractions) and rejects every other string, so the examples use
  listed literals and undecodable lines only.
\<close>

definition demo_float :: "string \<Rightarrow> pyfloat option" where
  "demo_float s =
     (if s = ''0.5'' then Some (Finite (1 / 2))
      else if s = ''0.001953125'' then Some (Finite (1 / 512))
      else if s = ''nan'' then Some NaN
      else None)"

definition demo_float_str :: "pyfloat \<Rightarrow> string" where
  "demo_float_str f =
     (if f = Finite (1 / 2) then ''0.5''
      else if f = Finite (1 / 512) then ''0.001953125''
      else if f = Finite (1 / 16) then ''0.0625''
      else if f = NaN then ''nan''
      else ''?'')"

definition tpv :: "json \<Rightarrow> (string \<rightharpoonup> json)" where
  "tpv mode = map_of [(''class'', JStr ''TPV''), (''mode'', mode)]"

definition demo_loads :: "string \<Rightarrow> (string \<rightharpoonup> json) option" where
  \<open>demo_loads s =
     (if s = ''{"class":"TPV","mode":3}'' then Some (tpv (JInt 3))
      else if s = ''{"class":"TPV","mode":2}'' then Some (tpv (JInt 2))
      else if s = ''{"class":"TPV","mode":1}'' then Some (tpv (JInt 1))
      else if s = ''{"class":"TPV","mode":"3"}'' then Some (tpv (JStr ''3''))
      else if s = ''{"class":"SKY"}'' then Some (map_of [(''class'', JStr ''SKY'')])
      else None)\<close>

definition demo_runtime :: runtime where
  "demo_runtime =
     \<lparr>py_float = demo_float, float_str = demo_float_str,
      json_loads = demo_loads, json_repr = (\<lambda>v. ''?'')\<rparr>"

definition demo_config :: config where
  "demo_config =
     \<lparr>HOST = ''myntp'', IP_FALLBACK = ''0.0.0.0'', CHECK_INTERVAL = 30,
      MAX_ACCEPTABLE_STRATUM = 4, MAX_ABS_OFFSET_SEC = Finite (1 / 16),
      CGPS_TIMEOUT_SEC = 8, GPSPIPE_SAMPLES = 5, DB_URL = Some ''postgresql://db/ntp''\<rparr>"

definition lines :: "string list \<Rightarrow> string" where
  "lines ls = join [CHR 0x0A] ls"

definition exit0 :: "string \<Rightarrow> response" where
  "exit0 out = Completed \<lparr>returncode = 0, stdout = out, stderr = []\<rparr>"

definition good_tracking :: string where
  "good_tracking =
     lines [''Reference ID    : 50505300 (PPS)'',
            ''Stratum         : 2'',
            ''Last offset     : 0.001953125 seconds'',
            ''Leap status     : Normal'']"

definition good_sources :: string where
  "good_sources =
     lines [''MS Name/IP address         Stratum Poll Reach LastRx Last sample'',
            ''^* 10.0.0.1                      1   6   377    21    +12us[ +15us] +/-  201us'']"

definition good_gps :: string where
  \<open>good_gps = lines [''{"class":"SKY"}'', ''{"class":"TPV","mode":3}'']\<close>

text \<open>A host where every command succeeds and the receiver holds a 3D fix.\<close>

definition healthy_remote :: "nat \<Rightarrow> string \<Rightarrow> response" where
  "healthy_remote n cmd =
     (if cmd = ''chronyc tracking'' then exit0 good_tracking
      else if cmd = ''chronyc sources -n'' then exit0 good_sources
      else exit0 good_gps)"

definition healthy_env :: env where
  "healthy_env = \<lparr>remote = healthy_remote, db_fault = (\<lambda>row. None)\<rparr>"

text \<open>
  A host without the receiver tool: the wrapper exits with 127 and the marker on
  stderr. The standard output would make the fix-status parser raise.
\<close>

definition tool_missing_process :: completed_process where
  \<open>tool_missing_process =
     \<lparr>returncode = 127, stdout = ''{"class":"TPV","mode":"3"}'' @ [CHR 0x0A],
      stderr = ''gpspipe-not-found''\<rparr>\<close>

definition tool_missing_env :: env where
  "tool_missing_env =
     \<lparr>remote = (\<lambda>n cmd. Completed tool_missing_process), db_fault = (\<lambda>row. None)\<rparr>"

text \<open>
  The six conditions of a healthy verdict, each as the specification words it, and the
  message of the test that reports its violation.
\<close>

datatype check = LeapCheck | StratumCheck | OffsetCheck | SelectedCheck | SourcesCheck | FixCheck

definition all_checks :: "check list" where
  "all_checks = [LeapCheck, StratumCheck, OffsetCheck, SelectedCheck, SourcesCheck, FixCheck]"

definition condition_holds :: "config \<Rightarrow> tracking \<Rightarrow> sources \<Rightarrow> bool \<Rightarrow> check \<Rightarrow> bool" where
  "condition_holds cfg t s gps_ok c =
     (case c of
        LeapCheck \<Rightarrow> (case leap_status t of None \<Rightarrow> False | Some l \<Rightarrow> contains l ''Normal'')
      | StratumCheck \<Rightarrow>
          (case stratum t of None \<Rightarrow> False | Some n \<Rightarrow> n \<le> MAX_ACCEPTABLE_STRATUM cfg)
      | OffsetCheck \<Rightarrow>
          (case last_offset_sec t of
             None \<Rightarrow> False
           | Some x \<Rightarrow> fle (fabs x) (MAX_ABS_OFFSET_SEC cfg))
      | SelectedCheck \<Rightarrow> has_selected s
      | SourcesCheck \<Rightarrow> 0 < total_sources s
      | FixCheck \<Rightarrow> gps_ok)"

definition problem_text :: "runtime \<Rightarrow> config \<Rightarrow> tracking \<Rightarrow> check \<Rightarrow> string" where
  "problem_text rt cfg t c =
     (case c of
        LeapCheck \<Rightarrow> ''Leap status not Normal (got '' @ opt_str id (leap_status t) @ '')''
      | StratumCheck \<Rightarrow>
          ''Stratum too high (got '' @ opt_str str_int (stratum t) @ '', max ''
          @ str_int (MAX_ACCEPTABLE_STRATUM cfg) @ '')''
      | OffsetCheck \<Rightarrow>
          ''Time offset too large (abs '' @ opt_str (float_str rt) (last_offset_sec t)
          @ ''s > '' @ float_str rt (MAX_ABS_OFFSET_SEC cfg) @ ''s)''
      | SelectedCheck \<Rightarrow> ''No selected NTP source in chronyc sources''
      | SourcesCheck \<Rightarrow> ''No NTP sources visible in chronyc sources''
      | FixCheck \<Rightarrow> ''GPS has no fix via gpspipe'')"

text \<open>Samples for the examples: an offset that is a NaN, and a stratum of 9.\<close>

definition nan_report :: string where
  "nan_report = lines [''Leap status : Normal'', ''Stratum : 1'', ''Last offset : nan seconds'']"

definition nan_tracking :: tracking where
  "nan_tracking = \<lparr>leap_status = Some ''Normal'', stratum = Some 1, last_offset_sec = Some NaN\<rparr>"

definition stratum9_tracking :: tracking where
  "stratum9_tracking =
     \<lparr>leap_status = Some ''Normal'', stratum = Some 9, last_offset_sec = Some (Finite (1 / 512))\<rparr>"

definition one_selected :: sources where
  "one_selected =
     \<lparr>has_selected = True, selected_line = Some ''^* 10.0.0.1'', total_sources = 1\<rparr>"

text \<open>The three remote commands of one sampling pass, with their timeouts.\<close>

definition three_commands :: "config \<Rightarrow> event list" where
  "three_commands cfg =
     [Ssh ''chronyc tracking'' 10, Ssh ''chronyc sources -n'' 10,
      Ssh (remote_cmd cfg) (CGPS_TIMEOUT_SEC cfg + 3)]"

text \<open>The healthy host, except that its \<open>k\<close>-th command has the outcome \<open>r\<close>.\<close>

definition with_response :: "nat \<Rightarrow> response \<Rightarrow> env" where
  "with_response k r =
     \<lparr>remote = (\<lambda>n cmd. if n = k then r else healthy_remote n cmd),
      db_fault = (\<lambda>row. None)\<rparr>"


definition exit1 :: completed_process where
  "exit1 = \<lparr>returncode = 1, stdout = [], stderr = ''506 Cannot talk to daemon''\<rparr>"


definition good_tracking_sample :: tracking where
  "good_tracking_sample =
     \<lparr>leap_status = Some ''Normal'', stratum = Some 2, last_offset_sec = Some (Finite (1 / 512))\<rparr>"

definition good_sources_sample :: sources where
  "good_sources_sample =
     \<lparr>has_selected = True,
      selected_line =
        Some ''^* 10.0.0.1                      1   6   377    21    +12us[ +15us] +/-  201us'',
      total_sources = 1\<rparr>"

text \<open>
  For the sources parser. The header of a report, as chronyc prints it, is the line of
  column titles, which starts with \<open>MS\<close> (\<open>Name/IP\<close> is its second title), and the rule
  of equals signs under it. The data rows of a report are its other lines that are not
  blank, stripped of surrounding whitespace. The selected marker is given as the
  specification words it: a leading \<open>^*\<close>, or the marker standing alone as a
  whitespace-delimited field (the marker read as \<open>^*\<close> or as the bare asterisk).
\<close>

definition is_title :: "string \<Rightarrow> bool" where
  "is_title s = (startswith s ''MS'' \<or> startswith s ''Name/IP'')"

definition is_rule :: "string \<Rightarrow> bool" where
  "is_rule s = (s \<noteq> [] \<and> list_all (\<lambda>c. c = CHR ''='') s)"

definition data_rows :: "string \<Rightarrow> string list" where
  "data_rows text =
     filter (\<lambda>s. s \<noteq> [] \<and> \<not> is_title s \<and> \<not> is_rule s) (map strip (splitlines text))"

definition rule_lines :: "string \<Rightarrow> string list" where
  "rule_lines text = filter is_rule (map strip (splitlines text))"

definition spec_selected :: "string \<Rightarrow> bool" where
  "spec_selected s =
     (startswith s ''^*'' \<or> ''^*'' \<in> set (split_ws s) \<or> ''*'' \<in> set (split_ws s))"

definition refclock_row :: string where
  "refclock_row = ''#* GPS0                          0   4   377    11   -479ns[ -621ns] +/-  134ms''"

definition starred_name_row :: string where
  "starred_name_row = ''^- ntp1* 2 6 377 21 +12us[ +15us] +/- 201us''"

definition one_selected_report :: string where
  "one_selected_report =
     lines [''MS Name/IP address         Stratum Poll Reach LastRx Last sample'',
            '''',
            ''  ^* 10.0.0.1 1 6 377 21 +12us[ +15us] +/- 201us  '',
            ''^- 10.0.0.2 2 6 377 21 +40us[ +45us] +/- 301us'']"

definition header_only_report :: string where
  "header_only_report =
     lines [''MS Name/IP address         Stratum Poll Reach LastRx Last sample'', '''', ''   '']"

text \<open>
  Two reports as chronyc prints them, with the rule under the titles: one with two
  sources, the first of them selected, and one of a host that has no source.
\<close>

definition two_sources_report :: string where
  "two_sources_report =
     lines [''MS Name/IP address         Stratum Poll Reach LastRx Last sample'',
            ''==============================================================================='',
            ''^* 10.0.0.1                      1   6   377    21    +12us[ +15us] +/-  201us'',
            ''^- 10.0.0.2                      2   6   377    21    +40us[ +45us] +/-  301us'']"

definition no_sources_report :: string where
  "no_sources_report =
     lines [''MS Name/IP address         Stratum Poll Reach LastRx Last sample'',
            ''==============================================================================='']"

text \<open>
  For the fix-status parser: what a line decodes to (nothing for a line that is blank,
  does not start with an opening brace or does not decode), the fix reports of a stream
  in stream order, and the mode values they carry.
\<close>

definition decode_line :: "runtime \<Rightarrow> string \<Rightarrow> (string \<rightharpoonup> json) option" where
  "decode_line rt raw =
     (let line = strip raw in
      if line = [] \<or> \<not> startswith line ''{'' then None else json_loads rt line)"

definition is_tpv :: "(string \<rightharpoonup> json) \<Rightarrow> bool" where
  "is_tpv obj = (json_get obj ''class'' = Some (JStr ''TPV''))"

definition tpv_of_lines :: "runtime \<Rightarrow> string list \<Rightarrow> (string \<rightharpoonup> json) list" where
  "tpv_of_lines rt ls = filter is_tpv (List.map_filter (decode_line rt) ls)"

definition modes_of_lines :: "runtime \<Rightarrow> string list \<Rightarrow> json list" where
  "modes_of_lines rt ls = List.map_filter (\<lambda>obj. json_get obj ''mode'') (tpv_of_lines rt ls)"

definition tpv_records :: "runtime \<Rightarrow> string \<Rightarrow> (string \<rightharpoonup> json) list" where
  "tpv_records rt text = tpv_of_lines rt (splitlines text)"

definition tpv_modes :: "runtime \<Rightarrow> string \<Rightarrow> json list" where
  "tpv_modes rt text = modes_of_lines rt (splitlines text)"

text \<open>A mode that is a number (a boolean is one in Python), and its test against 2.\<close>

definition is_number :: "json \<Rightarrow> bool" where
  "is_number m = (case m of JInt n \<Rightarrow> True | JFloat f \<Rightarrow> True | JBool b \<Rightarrow> True | _ \<Rightarrow> False)"

definition mode_at_least_2 :: "json \<Rightarrow> bool" where
  "mode_at_least_2 m =
     (case m of JInt n \<Rightarrow> 2 \<le> n | JFloat f \<Rightarrow> fge f (Finite 2) | _ \<Rightarrow> False)"

definition fix_then_noise :: string where
  \<open>fix_then_noise =
     lines [''{"class":"SKY"}'', ''{"class":"TPV","mode":1}'', ''gpspipe: noise'',
            ''{"class":"TPV","mode":3}'', ''{"class":"TPV","mo'']\<close>

definition fix_then_lost :: string where
  \<open>fix_then_lost = lines [''{"class":"TPV","mode":3}'', ''{"class":"TPV","mode":1}'']\<close>

definition string_mode_stream :: string where
  \<open>string_mode_stream = lines [''{"class":"TPV","mode":3}'', ''{"class":"TPV","mode":"3"}'']\<close>

text \<open>A host whose receiver holds a two-dimensional fix.\<close>

definition fix2d_env :: env where
  \<open>fix2d_env =
     \<lparr>remote = (\<lambda>n cmd.
         if cmd = ''chronyc tracking'' then exit0 good_tracking
         else if cmd = ''chronyc sources -n'' then exit0 good_sources
         else exit0 (lines [''{"class":"TPV","mode":2}''])),
      db_fault = (\<lambda>row. None)\<rparr>\<close>



















text \<open>
  A report with whitespace around the lines, lines without a key, a key given twice and
  values that are not of their type.
\<close>

definition untidy_tracking :: string where
  "untidy_tracking =
     lines [''Reference ID    : 50505300 (PPS)'',
            ''   Stratum      : 7'',
            ''System time     : 0.000000012 seconds fast of NTP time'',
            [CHR 0x09] @ ''Stratum : 2  '',
            ''Stratum         : two'',
            '''',
            ''Last offset     : soon'',
            ''Last offset     : 0.5 seconds'',
            ''no colon on this line'',
            ''  Leap status   : Not synchronised  '']"

definition untidy_tracking_sample :: tracking where
  "untidy_tracking_sample =
     \<lparr>leap_status = Some ''Not synchronised'', stratum = Some 2,
      last_offset_sec = Some (Finite (1 / 2))\<rparr>"

section \<open>Properties\<close>

subsection \<open>The remote command runner\<close>

lemma run_ssh_completed:
  "remote ev (length (ssh_calls tr)) cmd = Completed cp \<Longrightarrow>
   run_ssh ev cmd t tr = (Inr cp, tr @ [Ssh cmd t])"
  by (simp add: run_ssh_def)

lemma run_ssh_timeout:
  "remote ev (length (ssh_calls tr)) cmd = Raised (TimeoutExpired m) \<Longrightarrow>
   run_ssh ev cmd t tr =
     (Inl (TimeoutExpired m),
      tr @ [Ssh cmd t, Log ERROR (''SSH TIMEOUT after '' @ str_int t @ ''s: cmd='' @ cmd)])"
  by (simp add: run_ssh_def)

lemma run_ssh_raised:
  "remote ev (length (ssh_calls tr)) cmd = Raised e \<Longrightarrow> \<not> is_TimeoutExpired e \<Longrightarrow>
   run_ssh ev cmd t tr = (Inl e, tr @ [Ssh cmd t])"
  by (simp add: run_ssh_def)

subsection \<open>The tracking parser on a line without a colon\<close>

text \<open>
  Claim C2. The claim says that \<open>parse_tracking\<close> returns on every input, lines without
  a colon after a recognised key included. On the one-line report \<open>Leap status\<close> the
  function raises IndexError: \<open>split(':', 1)\<close> gives one piece and \<open>[1]\<close> is out of
  range, with no handler around it. This theorem evaluates the code at that input.
\<close>

theorem parse_tracking_leap_without_colon:
  "parse_tracking rt ''Leap status'' = Inl (IndexError ''list index out of range'')"
  by (simp add: parse_tracking_def splitlines_def parse_tracking_line_def strip_def
      is_space_def is_linebreak_def index_def split1_def)

text \<open>
  The \<open>Stratum\<close> branch handles ValueError only, so the same IndexError leaves it too,
  and the lines after it are never read.
\<close>

lemma parse_tracking_stratum_without_colon:
  "parse_tracking rt (lines [''Stratum 3'', ''Leap status : Normal'']) =
     Inl (IndexError ''list index out of range'')"
  by (simp add: parse_tracking_def splitlines_def parse_tracking_line_def strip_def
      is_space_def is_linebreak_def index_def split1_def lines_def)

text \<open>The \<open>Last offset\<close> branch handles every exception: the same defect is absorbed.\<close>

lemma parse_tracking_offset_without_colon:
  "parse_tracking rt ''Last offset'' =
     Inr \<lparr>leap_status = None, stratum = None, last_offset_sec = None\<rparr>"
  by (simp add: parse_tracking_def splitlines_def parse_tracking_line_def strip_def
      is_space_def is_linebreak_def index_def split1_def)

subsection \<open>The receiver tool is missing\<close>

text \<open>
  Claim C7. When the fix-status command completes with exit code 127, or with the marker
  \<open>gpspipe-not-found\<close> on its standard error, \<open>run_gps_status\<close> returns normally with
  \<open>has_fix = False\<close> and the summary \<open>gpspipe not found on remote host\<close>, after one
  remote command and one warning. The result is the same for every runtime, so it does
  not depend on what the fix-status parser would do with the output.
\<close>

theorem run_gps_status_tool_not_found:
  assumes "remote ev (length (ssh_calls tr)) (remote_cmd cfg) = Completed cp"
    and "returncode cp = 127 \<or> contains (stderr cp) ''gpspipe-not-found''"
  shows "run_gps_status rt cfg ev tr =
           (Inr (False, ''gpspipe not found on remote host''),
            tr @ [Ssh (remote_cmd cfg) (CGPS_TIMEOUT_SEC cfg + 3),
                  Log WARNING ''gpspipe binary not found on remote''])"
  using assms by (auto simp add: run_gps_status_def run_ssh_completed)

lemma tool_missing_output_would_raise:
  "parse_gpspipe_output demo_runtime
     (stdout tool_missing_process @ stderr tool_missing_process) = Inl (not_supported ''str'')"
  by code_simp

text \<open>
  The witness: exit code 127 with the marker, on an output on which the parser would
  raise TypeError; the summary contains \<open>not found\<close>.
\<close>

theorem run_gps_status_tool_not_found_witness:
  "run_gps_status demo_runtime demo_config tool_missing_env [] =
     (Inr (False, ''gpspipe not found on remote host''),
      [Ssh (remote_cmd demo_config) 11, Log WARNING ''gpspipe binary not found on remote''])
   \<and> contains ''gpspipe not found on remote host'' ''not found''
   \<and> parse_gpspipe_output demo_runtime
        (stdout tool_missing_process @ stderr tool_missing_process) = Inl (not_supported ''str'')"
  using run_gps_status_tool_not_found
    [of tool_missing_env "[]" demo_config tool_missing_process demo_runtime]
    tool_missing_output_would_raise
  by (simp add: tool_missing_env_def tool_missing_process_def ssh_calls_def demo_config_def)

subsection \<open>The health evaluation\<close>

lemma fgt_iff_not_fle: "a \<noteq> NaN \<Longrightarrow> b \<noteq> NaN \<Longrightarrow> fgt a b \<longleftrightarrow> \<not> fle a b"
  by (cases a; cases b) (auto simp: fgt_def fle_def)

lemma fabs_NaN: "fabs x = NaN \<longleftrightarrow> x = NaN"
  by (cases x) auto

lemma health_problems_eq:
  assumes "last_offset_sec t \<noteq> Some NaN" and "MAX_ABS_OFFSET_SEC cfg \<noteq> NaN"
  shows "health_problems rt cfg t s gps_ok =
           map (problem_text rt cfg t)
             (filter (\<lambda>c. \<not> condition_holds cfg t s gps_ok c) all_checks)"
proof -
  have off: "(case last_offset_sec t of None \<Rightarrow> True
              | Some x \<Rightarrow> fgt (fabs x) (MAX_ABS_OFFSET_SEC cfg))
         = (\<not> (case last_offset_sec t of None \<Rightarrow> False
                | Some x \<Rightarrow> fle (fabs x) (MAX_ABS_OFFSET_SEC cfg)))"
    using assms by (auto simp: fgt_iff_not_fle fabs_NaN split: option.splits)
  have leap: "(case leap_status t of None \<Rightarrow> True | Some l \<Rightarrow> \<not> contains l ''Normal'')
         = (\<not> (case leap_status t of None \<Rightarrow> False | Some l \<Rightarrow> contains l ''Normal''))"
    by (auto split: option.splits)
  have strat: "(case stratum t of None \<Rightarrow> True | Some n \<Rightarrow> n > MAX_ACCEPTABLE_STRATUM cfg)
         = (\<not> (case stratum t of None \<Rightarrow> False | Some n \<Rightarrow> n \<le> MAX_ACCEPTABLE_STRATUM cfg))"
    by (auto split: option.splits)
  show ?thesis
    unfolding health_problems_def Let_def off leap strat
    by (simp add: all_checks_def problem_text_def condition_holds_def)
qed

lemma health_verdict_ok: 
  "fst (health_verdict rt cfg t s gps_ok summary) = (health_problems rt cfg t s gps_ok = [])"
  by (simp add: health_verdict_def Let_def)

text \<open>
  Claim C1, as stated, fails on a NaN: the report \<open>nan_report\<close> parses to an offset that
  is a NaN (\<open>float('nan')\<close> succeeds), \<open>abs(offset) > MAX_ABS_OFFSET_SEC\<close> is false on it,
  so no problem is recorded and the verdict is healthy, although the absolute value of
  the offset is not below the threshold.
\<close>

theorem health_verdict_nan_counterexample:
  "parse_tracking demo_runtime nan_report = Inr nan_tracking
   \<and> health_problems demo_runtime demo_config nan_tracking one_selected True = []
   \<and> fst (health_verdict demo_runtime demo_config nan_tracking one_selected True
             ''GPS(TPV): mode=3D fix'')
   \<and> \<not> condition_holds demo_config nan_tracking one_selected True OffsetCheck"
  by code_simp

text \<open>
  Claim C1, amended. When neither the offset nor the offset threshold is a NaN, the
  verdict is healthy if and only if the six conditions hold (leap status present and
  containing \<open>Normal\<close>; stratum present and at most the maximum; offset present and of
  absolute value at most the threshold; a selected source; at least one source; a fix);
  the list of problems has exactly one entry for each violated condition, in the order
  leap, stratum, offset, no selected source, no sources, no fix; and the returned text
  ends with the seven detail fields whatever the outcome.
\<close>

theorem health_verdict_decides:
  assumes "last_offset_sec t \<noteq> Some NaN" and "MAX_ABS_OFFSET_SEC cfg \<noteq> NaN"
  shows "fst (health_verdict rt cfg t s gps_ok summary)
           = (condition_holds cfg t s gps_ok LeapCheck
              \<and> condition_holds cfg t s gps_ok StratumCheck
              \<and> condition_holds cfg t s gps_ok OffsetCheck
              \<and> condition_holds cfg t s gps_ok SelectedCheck
              \<and> condition_holds cfg t s gps_ok SourcesCheck
              \<and> condition_holds cfg t s gps_ok FixCheck)
       \<and> health_problems rt cfg t s gps_ok
           = map (problem_text rt cfg t)
               (filter (\<lambda>c. \<not> condition_holds cfg t s gps_ok c) all_checks)
       \<and> snd (health_verdict rt cfg t s gps_ok summary)
           = (if fst (health_verdict rt cfg t s gps_ok summary) then ''OK | ''
              else join '' | '' (health_problems rt cfg t s gps_ok) @ '' || '')
             @ join '' | '' (health_detail rt cfg t s summary)
       \<and> length (health_detail rt cfg t s summary) = 7"
proof -
  have p: "health_problems rt cfg t s gps_ok =
           map (problem_text rt cfg t)
             (filter (\<lambda>c. \<not> condition_holds cfg t s gps_ok c) all_checks)"
    by (rule health_problems_eq[OF assms])
  have e: "(map (problem_text rt cfg t)
              (filter (\<lambda>c. \<not> condition_holds cfg t s gps_ok c) all_checks) = [])
       = (\<forall>c \<in> set all_checks. condition_holds cfg t s gps_ok c)"
    by (simp add: filter_empty_conv)
  have a: "(\<forall>c \<in> set all_checks. condition_holds cfg t s gps_ok c)
       = (condition_holds cfg t s gps_ok LeapCheck
              \<and> condition_holds cfg t s gps_ok StratumCheck
              \<and> condition_holds cfg t s gps_ok OffsetCheck
              \<and> condition_holds cfg t s gps_ok SelectedCheck
              \<and> condition_holds cfg t s gps_ok SourcesCheck
              \<and> condition_holds cfg t s gps_ok FixCheck)"
    by (simp add: all_checks_def)
  have d: "snd (health_verdict rt cfg t s gps_ok summary)
           = (if fst (health_verdict rt cfg t s gps_ok summary) then ''OK | ''
              else join '' | '' (health_problems rt cfg t s gps_ok) @ '' || '')
             @ join '' | '' (health_detail rt cfg t s summary)"
    by (simp add: health_verdict_def Let_def)
  have l: "length (health_detail rt cfg t s summary) = 7"
    by (simp add: health_detail_def)
  show ?thesis
    using p e a d l by (simp add: health_verdict_ok)
qed

text \<open>
  The witness: a stratum of 9 against the maximum 4, with no selected source and no fix.
  Three conditions are violated and their three messages come in the fixed order.
\<close>

theorem health_verdict_decides_witness:
  "last_offset_sec stratum9_tracking \<noteq> Some NaN \<and> MAX_ABS_OFFSET_SEC demo_config \<noteq> NaN
   \<and> \<not> fst (health_verdict demo_runtime demo_config stratum9_tracking
              (one_selected\<lparr>has_selected := False\<rparr>) False ''gpspipe timed out'')
   \<and> health_problems demo_runtime demo_config stratum9_tracking
        (one_selected\<lparr>has_selected := False\<rparr>) False
      = [''Stratum too high (got 9, max 4)'', ''No selected NTP source in chronyc sources'',
         ''GPS has no fix via gpspipe'']"
proof -
  have h1: "last_offset_sec stratum9_tracking \<noteq> Some NaN"
    by (simp add: stratum9_tracking_def)
  have h2: "MAX_ABS_OFFSET_SEC demo_config \<noteq> NaN"
    by (simp add: demo_config_def)
  have s9: "str_int 9 = ''9''" and s4: "str_int 4 = ''4''"
    by code_simp+
  note inst = health_verdict_decides[OF h1 h2, of demo_runtime "one_selected\<lparr>has_selected := False\<rparr>"
      False "''gpspipe timed out''"]
  have c: "\<not> condition_holds demo_config stratum9_tracking
              (one_selected\<lparr>has_selected := False\<rparr>) False StratumCheck"
    by (simp add: condition_holds_def stratum9_tracking_def demo_config_def)
  have f: "map (problem_text demo_runtime demo_config stratum9_tracking)
             (filter (\<lambda>c. \<not> condition_holds demo_config stratum9_tracking
                 (one_selected\<lparr>has_selected := False\<rparr>) False c) all_checks)
      = [''Stratum too high (got 9, max 4)'', ''No selected NTP source in chronyc sources'',
         ''GPS has no fix via gpspipe'']"
    by (simp add: all_checks_def condition_holds_def problem_text_def stratum9_tracking_def
        one_selected_def demo_config_def opt_str_def s9 s4 fle_def)
  show ?thesis
    using inst c f h1 h2 by simp
qed

subsection \<open>What each function adds to the trace\<close>

lemma ssh_calls_append [simp]: "ssh_calls (xs @ ys) = ssh_calls xs @ ssh_calls ys"
  by (simp add: ssh_calls_def)

lemma ssh_calls_simps [simp]:
  "ssh_calls [] = []"
  "ssh_calls (Ssh c t # xs) = Ssh c t # ssh_calls xs"
  "ssh_calls (Log l m # xs) = ssh_calls xs"
  "ssh_calls (Email a b # xs) = ssh_calls xs"
  "ssh_calls (DbInsert r # xs) = ssh_calls xs"
  "ssh_calls (Sleep n # xs) = ssh_calls xs"
  by (simp_all add: ssh_calls_def)

lemma run_ssh_calls:
  assumes "run_ssh ev cmd t tr = (r, tr1)"
  shows "ssh_calls tr1 = ssh_calls tr @ [Ssh cmd t]"
  using assms by (auto simp add: run_ssh_def split: response.splits if_splits)



lemma run_gps_status_calls:
  assumes "run_gps_status rt cfg ev tr = (r, tr1)"
  shows "ssh_calls tr1 = ssh_calls tr @ [Ssh (remote_cmd cfg) (CGPS_TIMEOUT_SEC cfg + 3)]"
  using assms
  by (auto simp add: run_gps_status_def Let_def split: prod.splits sum.splits if_splits
      dest!: run_ssh_calls)



lemma db_insert_sample_quiet:
  "ssh_calls (db_insert_sample cfg ev t s g m tr) = ssh_calls tr"
  "filter is_Email (db_insert_sample cfg ev t s g m tr) = filter is_Email tr"
  "filter is_Sleep (db_insert_sample cfg ev t s g m tr) = filter is_Sleep tr"
  by (simp_all add: db_insert_sample_def Let_def split: option.splits)





subsection \<open>check_ntp_health, outcome by outcome\<close>

lemma check_tracking_raised:
  assumes "remote ev (length (ssh_calls tr)) ''chronyc tracking'' = Raised e"
  shows "fst (check_ntp_health rt cfg ev tr) = Inl e"
    and "ssh_calls (snd (check_ntp_health rt cfg ev tr))
           = ssh_calls tr @ [Ssh ''chronyc tracking'' 10]"
  using assms by (simp_all add: check_ntp_health_def run_ssh_def)

lemma check_tracking_nonzero:
  assumes "remote ev (length (ssh_calls tr)) ''chronyc tracking'' = Completed trk"
    and "returncode trk \<noteq> 0"
  shows "check_ntp_health rt cfg ev tr =
           (Inr (False, failed_on cfg ''tracking'' (stderr trk)),
            tr @ [Ssh ''chronyc tracking'' 10])"
  using assms by (simp add: check_ntp_health_def run_ssh_def)

lemma check_tracking_parse_raises:
  assumes "remote ev (length (ssh_calls tr)) ''chronyc tracking'' = Completed trk"
    and "returncode trk = 0" and "parse_tracking rt (stdout trk) = Inl e"
  shows "check_ntp_health rt cfg ev tr = (Inl e, tr @ [Ssh ''chronyc tracking'' 10])"
  using assms by (simp add: check_ntp_health_def run_ssh_def)

lemma check_sources_raised:
  assumes "remote ev (length (ssh_calls tr)) ''chronyc tracking'' = Completed trk"
    and "returncode trk = 0" and "parse_tracking rt (stdout trk) = Inr t"
    and "remote ev (Suc (length (ssh_calls tr))) ''chronyc sources -n'' = Raised e"
  shows "fst (check_ntp_health rt cfg ev tr) = Inl e"
    and "ssh_calls (snd (check_ntp_health rt cfg ev tr))
           = ssh_calls tr @ [Ssh ''chronyc tracking'' 10, Ssh ''chronyc sources -n'' 10]"
  using assms by (simp_all add: check_ntp_health_def run_ssh_def)

lemma check_sources_nonzero:
  assumes "remote ev (length (ssh_calls tr)) ''chronyc tracking'' = Completed trk"
    and "returncode trk = 0" and "parse_tracking rt (stdout trk) = Inr t"
    and "remote ev (Suc (length (ssh_calls tr))) ''chronyc sources -n'' = Completed sr"
    and "returncode sr \<noteq> 0"
  shows "check_ntp_health rt cfg ev tr =
           (Inr (False, failed_on cfg ''sources'' (stderr sr)),
            tr @ [Ssh ''chronyc tracking'' 10, Ssh ''chronyc sources -n'' 10])"
  using assms by (simp add: check_ntp_health_def run_ssh_def)

lemma check_reaches_gps:
  assumes "remote ev (length (ssh_calls tr)) ''chronyc tracking'' = Completed trk"
    and "returncode trk = 0" and "parse_tracking rt (stdout trk) = Inr t"
    and "remote ev (Suc (length (ssh_calls tr))) ''chronyc sources -n'' = Completed sr"
    and "returncode sr = 0"
  shows "check_ntp_health rt cfg ev tr =
           (case run_gps_status rt cfg ev
                   (tr @ [Ssh ''chronyc tracking'' 10, Ssh ''chronyc sources -n'' 10]) of
              (Inl e, tr3) \<Rightarrow> (Inl e, tr3)
            | (Inr (gps_ok, gps_summary), tr3) \<Rightarrow>
                (Inr (health_verdict rt cfg t (parse_sources (stdout sr)) gps_ok gps_summary),
                 tr3))"
  using assms by (simp add: check_ntp_health_def run_ssh_def Let_def)


lemma run_gps_status_parsed:
  assumes "remote ev (length (ssh_calls tr)) (remote_cmd cfg) = Completed cp"
    and "returncode cp \<noteq> 127" and "\<not> contains (stderr cp) ''gpspipe-not-found''"
    and "parse_gpspipe_output rt (stdout cp @ stderr cp) = Inr (fix, summary, n, mode)"
    and "summary \<noteq> []"
  shows "run_gps_status rt cfg ev tr =
           (Inr (fix, summary), tr @ [Ssh (remote_cmd cfg) (CGPS_TIMEOUT_SEC cfg + 3)])"
  using assms by (simp add: run_gps_status_def run_ssh_def)



lemma check_calls_prefix:
  "\<exists>k. 1 \<le> k \<and> k \<le> 3 \<and>
     ssh_calls (snd (check_ntp_health rt cfg ev tr)) = ssh_calls tr @ take k (three_commands cfg)"
proof (cases "remote ev (length (ssh_calls tr)) ''chronyc tracking''")
  case (Raised e)
  from check_tracking_raised(2)[OF this] show ?thesis
    by (intro exI[of _ 1]) (simp add: three_commands_def)
next
  case (Completed trk)
  show ?thesis
  proof (cases "returncode trk = 0")
    case False
    with check_tracking_nonzero[OF Completed] show ?thesis
      by (intro exI[of _ 1]) (simp add: three_commands_def)
  next
    case rc: True
    show ?thesis
    proof (cases "parse_tracking rt (stdout trk)")
      case (Inl e)
      with check_tracking_parse_raises[OF Completed rc] show ?thesis
        by (intro exI[of _ 1]) (simp add: three_commands_def)
    next
      case (Inr t)
      show ?thesis
      proof (cases "remote ev (Suc (length (ssh_calls tr))) ''chronyc sources -n''")
        case (Raised e)
        from check_sources_raised(2)[OF Completed rc Inr this] show ?thesis
          by (intro exI[of _ 2]) (simp add: three_commands_def)
      next
        case sr: (Completed sr)
        show ?thesis
        proof (cases "returncode sr = 0")
          case False
          with check_sources_nonzero[OF Completed rc Inr sr] show ?thesis
            by (intro exI[of _ 2]) (simp add: three_commands_def)
        next
          case True
          show ?thesis
            by (intro exI[of _ 3])
              (auto simp add: check_reaches_gps[OF Completed rc Inr sr True] three_commands_def
                split: prod.splits sum.splits dest!: run_gps_status_calls)
        qed
      qed
    qed
  qed
qed

lemma check_healthy_calls:
  assumes "fst (check_ntp_health rt cfg ev tr) = Inr (True, d)"
  shows "ssh_calls (snd (check_ntp_health rt cfg ev tr)) = ssh_calls tr @ three_commands cfg"
  using assms
  by (auto simp add: check_ntp_health_def Let_def three_commands_def
      split: prod.splits sum.splits if_splits dest!: run_ssh_calls run_gps_status_calls)

lemma collect_calls:
  "\<exists>j. 1 \<le> j \<and> j \<le> 3 \<and>
     ssh_calls (collect_and_insert rt cfg ev tr) = ssh_calls tr @ take j (three_commands cfg)"
proof (cases "run_ssh ev ''chronyc tracking'' 10 tr")
  case p1: (Pair r1 tr1)
  note c1 = run_ssh_calls[OF p1]
  show ?thesis
  proof (cases r1)
    case (Inl e)
    with p1 c1 show ?thesis
      by (intro exI[of _ 1])
        (simp add: collect_and_insert_def collection_error_def three_commands_def)
  next
    case (Inr trk)
    show ?thesis
    proof (cases "run_ssh ev ''chronyc sources -n'' 10 tr1")
      case p2: (Pair r2 tr2)
      note c2 = run_ssh_calls[OF p2]
      show ?thesis
      proof (cases r2)
        case (Inl e)
        with p1 p2 c1 c2 Inr show ?thesis
          by (intro exI[of _ 2])
            (simp add: collect_and_insert_def collection_error_def three_commands_def)
      next
        case r2: (Inr sr)
        show ?thesis
        proof (cases "parse_tracking rt (stdout trk)")
          case (Inl e)
          with p1 p2 c1 c2 Inr r2 show ?thesis
            by (intro exI[of _ 2])
              (simp add: collect_and_insert_def collection_error_def three_commands_def)
        next
          case t: (Inr t)
          show ?thesis
          proof (cases "run_gps_status rt cfg ev tr2")
            case p3: (Pair r3 tr3)
            note c3 = run_gps_status_calls[OF p3]
            from p1 p2 p3 c1 c2 c3 Inr r2 t show ?thesis
              by (intro exI[of _ 3])
                (auto simp add: collect_and_insert_def collection_error_def three_commands_def
                  db_insert_sample_quiet Let_def split: sum.splits)
          qed
        qed
      qed
    qed
  qed
qed

subsection \<open>One iteration of the loop\<close>

lemma cycle_fault:
  assumes "fst (check_ntp_health rt cfg ev tr) = Inl e"
  shows "cycle rt cfg ev tr =
           snd (check_ntp_health rt cfg ev tr) @
           (if is_TimeoutExpired e
            then [Log ERROR (''SSH command timed out contacting '' @ HOST cfg
                             @ '' ('' @ IP_FALLBACK cfg @ '')''),
                  Email ''NTP health alert timeout''
                    (''SSH command timed out contacting '' @ HOST cfg
                     @ '' ('' @ IP_FALLBACK cfg @ '')'')]
            else [Log ERROR (''Unexpected error during NTP check: '' @ error_str e),
                  Email ''NTP health alert exception''
                    (''Unexpected error during NTP check: '' @ error_str e)])"
  using assms by (cases "check_ntp_health rt cfg ev tr") (simp add: cycle_def Let_def)

lemma cycle_unhealthy:
  assumes "fst (check_ntp_health rt cfg ev tr) = Inr (False, detail)"
  shows "cycle rt cfg ev tr =
           snd (check_ntp_health rt cfg ev tr) @
           [Log ERROR detail,
            Email ''NTP health alert on observium.andrea-house.com'' (detail @ [CHR 0x0A])]"
  using assms by (cases "check_ntp_health rt cfg ev tr") (simp add: cycle_def Let_def)

lemma cycle_healthy:
  assumes "fst (check_ntp_health rt cfg ev tr) = Inr (True, detail)"
  shows "cycle rt cfg ev tr =
           collect_and_insert rt cfg ev (snd (check_ntp_health rt cfg ev tr) @ [Log INFO detail])"
  using assms by (cases "check_ntp_health rt cfg ev tr") (simp add: cycle_def Let_def)

lemma cycle_cases:
  obtains (fault) e where "fst (check_ntp_health rt cfg ev tr) = Inl e"
  | (unhealthy) detail where "fst (check_ntp_health rt cfg ev tr) = Inr (False, detail)"
  | (healthy) detail where "fst (check_ntp_health rt cfg ev tr) = Inr (True, detail)"
proof (cases "fst (check_ntp_health rt cfg ev tr)")
  case (Inl e)
  then show ?thesis by (rule fault)
next
  case (Inr v)
  then show ?thesis
    by (cases v; cases "fst v") (auto intro: unhealthy healthy)
qed



subsection \<open>The examples, evaluated\<close>

lemma good_tracking_parses: "parse_tracking demo_runtime good_tracking = Inr good_tracking_sample"
  by code_simp



lemma healthy_remote_simps:
  "healthy_remote n ''chronyc tracking''
     = Completed \<lparr>returncode = 0, stdout = good_tracking, stderr = []\<rparr>"
  "healthy_remote n ''chronyc sources -n''
     = Completed \<lparr>returncode = 0, stdout = good_sources, stderr = []\<rparr>"
  by (simp_all add: healthy_remote_def exit0_def)

lemma with_response_simps:
  "remote (with_response k r) k cmd = r"
  "n \<noteq> k \<Longrightarrow> remote (with_response k r) n cmd = healthy_remote n cmd"
  by (simp_all add: with_response_def)

subsection \<open>Failures of the three remote commands\<close>





lemma healthy_env_remote: "remote healthy_env n cmd = healthy_remote n cmd"
  by (simp add: healthy_env_def)

lemma healthy_check:
  "fst (check_ntp_health demo_runtime demo_config healthy_env [])
     = Inr (True, snd (health_verdict demo_runtime demo_config good_tracking_sample
                         good_sources_sample True ''GPS(TPV): mode=3D fix''))"
  by code_simp


subsection \<open>The remote commands of one cycle\<close>

text \<open>
  Claim C5, as stated, fails in both directions. On the healthy host one cycle issues
  six remote commands: the three of \<open>check_ntp_health\<close> and, after the healthy verdict,
  the same three again to collect the row for the database. When the tracking command
  exits with code 1 the cycle issues that single command.
\<close>

theorem cycle_remote_calls_counterexample:
  "ssh_calls (cycle demo_runtime demo_config healthy_env [])
     = three_commands demo_config @ three_commands demo_config
   \<and> length (ssh_calls (cycle demo_runtime demo_config healthy_env [])) = 6
   \<and> ssh_calls (cycle demo_runtime demo_config (with_response 0 (Completed exit1)) [])
     = [Ssh ''chronyc tracking'' 10]"
  by code_simp

text \<open>
  Claim C5, amended. \<open>check_ntp_health\<close> issues the tracking command (timeout 10), the
  sources command (timeout 10) and the fix-status command (timeout
  \<open>CGPS_TIMEOUT_SEC + 3\<close>) in this order and stops early: it issues the first one, two or
  three of them, and all three when the first two exit with 0 and the tracking report
  parses. After a healthy verdict the same cycle issues the same sequence once more, again
  the first one, two or three of them; after any other outcome it issues nothing more.
\<close>

theorem cycle_remote_calls:
  "(\<exists>k. 1 \<le> k \<and> k \<le> 3 \<and>
       ssh_calls (snd (check_ntp_health rt cfg ev tr))
         = ssh_calls tr @ take k (three_commands cfg))
   \<and> (remote ev (length (ssh_calls tr)) ''chronyc tracking'' = Completed trk
      \<and> returncode trk = 0 \<and> parse_tracking rt (stdout trk) = Inr t
      \<and> remote ev (Suc (length (ssh_calls tr))) ''chronyc sources -n'' = Completed sr
      \<and> returncode sr = 0 \<longrightarrow>
      ssh_calls (snd (check_ntp_health rt cfg ev tr)) = ssh_calls tr @ three_commands cfg)
   \<and> (fst (check_ntp_health rt cfg ev tr) = Inr (True, detail) \<longrightarrow>
      (\<exists>j. 1 \<le> j \<and> j \<le> 3 \<and>
         ssh_calls (cycle rt cfg ev tr)
           = ssh_calls tr @ three_commands cfg @ take j (three_commands cfg)))
   \<and> ((\<forall>d. fst (check_ntp_health rt cfg ev tr) \<noteq> Inr (True, d)) \<longrightarrow>
      ssh_calls (cycle rt cfg ev tr) = ssh_calls (snd (check_ntp_health rt cfg ev tr)))"
proof (intro conjI impI; (elim conjE)?)
  show "\<exists>k. 1 \<le> k \<and> k \<le> 3 \<and>
       ssh_calls (snd (check_ntp_health rt cfg ev tr))
         = ssh_calls tr @ take k (three_commands cfg)"
    by (rule check_calls_prefix)
next
  assume "remote ev (length (ssh_calls tr)) ''chronyc tracking'' = Completed trk"
    and "returncode trk = 0" and "parse_tracking rt (stdout trk) = Inr t"
    and "remote ev (Suc (length (ssh_calls tr))) ''chronyc sources -n'' = Completed sr"
    and "returncode sr = 0"
  then have "check_ntp_health rt cfg ev tr =
           (case run_gps_status rt cfg ev
                   (tr @ [Ssh ''chronyc tracking'' 10, Ssh ''chronyc sources -n'' 10]) of
              (Inl e, tr3) \<Rightarrow> (Inl e, tr3)
            | (Inr (gps_ok, gps_summary), tr3) \<Rightarrow>
                (Inr (health_verdict rt cfg t (parse_sources (stdout sr)) gps_ok gps_summary),
                 tr3))"
    by (rule check_reaches_gps)
  then show "ssh_calls (snd (check_ntp_health rt cfg ev tr)) = ssh_calls tr @ three_commands cfg"
    by (auto simp add: three_commands_def split: prod.splits sum.splits
        dest!: run_gps_status_calls)
next
  assume h: "fst (check_ntp_health rt cfg ev tr) = Inr (True, detail)"
  obtain j where j: "1 \<le> j" "j \<le> 3"
    "ssh_calls (collect_and_insert rt cfg ev (snd (check_ntp_health rt cfg ev tr) @ [Log INFO detail]))
       = ssh_calls (snd (check_ntp_health rt cfg ev tr) @ [Log INFO detail])
         @ take j (three_commands cfg)"
    using collect_calls by blast
  show "\<exists>j. 1 \<le> j \<and> j \<le> 3 \<and>
         ssh_calls (cycle rt cfg ev tr)
           = ssh_calls tr @ three_commands cfg @ take j (three_commands cfg)"
    using j by (intro exI[of _ j]) (simp add: cycle_healthy[OF h] check_healthy_calls[OF h])
next
  assume n: "\<forall>d. fst (check_ntp_health rt cfg ev tr) \<noteq> Inr (True, d)"
  show "ssh_calls (cycle rt cfg ev tr) = ssh_calls (snd (check_ntp_health rt cfg ev tr))"
  proof (cases rule: cycle_cases[of rt cfg ev tr])
    case (fault e)
    then show ?thesis by (simp add: cycle_fault)
  next
    case (unhealthy d)
    then show ?thesis by (simp add: cycle_unhealthy)
  next
    case (healthy d)
    with n show ?thesis by simp
  qed
qed

text \<open>
  The witness: on the healthy host the check issues the three commands and the cycle
  some more of the same sequence; when the tracking command exits with code 1 the
  cycle issues nothing after the check.
\<close>

theorem cycle_remote_calls_witness:
  "ssh_calls (snd (check_ntp_health demo_runtime demo_config healthy_env []))
     = three_commands demo_config
   \<and> (\<exists>j. 1 \<le> j \<and> j \<le> 3 \<and>
         ssh_calls (cycle demo_runtime demo_config healthy_env [])
           = three_commands demo_config @ take j (three_commands demo_config))
   \<and> ssh_calls (cycle demo_runtime demo_config (with_response 0 (Completed exit1)) [])
     = ssh_calls (snd (check_ntp_health demo_runtime demo_config
                         (with_response 0 (Completed exit1)) []))"
proof -
  note inst = cycle_remote_calls[where rt=demo_runtime and cfg=demo_config and tr="[]"]
  have w1: "ssh_calls (snd (check_ntp_health demo_runtime demo_config healthy_env []))
     = three_commands demo_config"
    using inst[where ev=healthy_env and t=good_tracking_sample
        and trk="\<lparr>returncode = 0, stdout = good_tracking, stderr = []\<rparr>"
        and sr="\<lparr>returncode = 0, stdout = good_sources, stderr = []\<rparr>"]
    by (simp add: healthy_env_remote healthy_remote_simps good_tracking_parses)
  have w2: "\<exists>j. 1 \<le> j \<and> j \<le> 3 \<and>
         ssh_calls (cycle demo_runtime demo_config healthy_env [])
           = three_commands demo_config @ take j (three_commands demo_config)"
    using inst[where ev=healthy_env] healthy_check by simp
  have f: "fst (check_ntp_health demo_runtime demo_config (with_response 0 (Completed exit1)) [])
             = Inr (False, failed_on demo_config ''tracking'' (stderr exit1))"
    by (simp add: check_tracking_nonzero[where trk=exit1] with_response_def exit1_def)
  have w3: "ssh_calls (cycle demo_runtime demo_config (with_response 0 (Completed exit1)) [])
     = ssh_calls (snd (check_ntp_health demo_runtime demo_config
                         (with_response 0 (Completed exit1)) []))"
    using inst[where ev="with_response 0 (Completed exit1)"] f by simp
  show ?thesis
    using w1 w2 w3 by simp
qed

subsection \<open>Faults and the loop\<close>






subsection \<open>The sources parser\<close>

lemma startswith_iff: "startswith s p \<longleftrightarrow> (\<exists>r. s = p @ r)"
  by (induction s p rule: startswith.induct) auto

lemma contains_iff: "contains s sub \<longleftrightarrow> (\<exists>a b. s = a @ sub @ b)"
proof (induction s)
  case Nil
  then show ?case by auto
next
  case (Cons c cs)
  show ?case
  proof
    assume "contains (c # cs) sub"
    then consider "startswith (c # cs) sub" | "contains cs sub" by auto
    then show "\<exists>a b. c # cs = a @ sub @ b"
    proof cases
      case 1
      then obtain r where "c # cs = sub @ r" by (auto simp: startswith_iff)
      then have "c # cs = [] @ sub @ r" by simp
      then show ?thesis by blast
    next
      case 2
      then obtain a b where "cs = a @ sub @ b" using Cons.IH by blast
      then have "c # cs = (c # a) @ sub @ b" by simp
      then show ?thesis by blast
    qed
  next
    assume "\<exists>a b. c # cs = a @ sub @ b"
    then obtain a b where ab: "c # cs = a @ sub @ b" by blast
    show "contains (c # cs) sub"
    proof (cases a)
      case Nil
      with ab have "startswith (c # cs) sub" by (auto simp: startswith_iff)
      then show ?thesis by simp
    next
      case (Cons x xs)
      with ab have "cs = xs @ sub @ b" by simp
      then have "contains cs sub" using Cons.IH by blast
      then show ?thesis by simp
    qed
  qed
qed

lemma is_selected_iff: "is_selected s \<longleftrightarrow> startswith s ''^*'' \<or> contains s ''* ''"
proof -
  have "contains s ''* ''" if "contains s '' ^* ''"
  proof -
    from that obtain a b where "s = a @ '' ^* '' @ b" by (auto simp: contains_iff)
    then have "s = (a @ '' ^'') @ ''* '' @ b" by simp
    then show ?thesis unfolding contains_iff by blast
  qed
  then show ?thesis by (auto simp: is_selected_def)
qed

lemma parse_sources_lines_total:
  "total_sources (parse_sources_lines out ls)
     = total_sources out + length (filter (\<lambda>s. \<not> is_header s) (map strip ls))"
  by (induction ls arbitrary: out) (simp_all add: Let_def)

lemma parse_sources_lines_has_selected:
  "has_selected (parse_sources_lines out ls)
     = (has_selected out
        \<or> filter is_selected (filter (\<lambda>s. \<not> is_header s) (map strip ls)) \<noteq> [])"
  by (induction ls arbitrary: out) (simp_all add: Let_def)

lemma parse_sources_lines_selected_line:
  "selected_line (parse_sources_lines out ls)
     = (if filter is_selected (filter (\<lambda>s. \<not> is_header s) (map strip ls)) = []
        then selected_line out
        else Some (last (filter is_selected (filter (\<lambda>s. \<not> is_header s) (map strip ls)))))"
  by (induction ls arbitrary: out) (simp_all add: Let_def)

text \<open>
  The rule under the titles is made of equals signs: the test of the header lines lets
  it through, and the test of the selected row does not mark it.
\<close>

lemma rule_chars: "is_rule s \<Longrightarrow> set s \<subseteq> {CHR ''=''}"
  by (auto simp add: is_rule_def list_all_iff)

lemma rule_not_header: "is_rule s \<Longrightarrow> \<not> is_header s"
proof
  assume r: "is_rule s" and h: "is_header s"
  from r have ne: "s \<noteq> []" by (simp add: is_rule_def)
  from h ne consider t where "s = ''MS'' @ t" | t where "s = ''Name/IP'' @ t"
    by (auto simp add: is_header_def startswith_iff)
  then show False
    using rule_chars[OF r] by cases auto
qed

lemma rule_not_selected: "is_rule s \<Longrightarrow> \<not> is_selected s"
proof
  assume r: "is_rule s" and h: "is_selected s"
  from h consider t where "s = ''^*'' @ t" | a b where "s = a @ ''* '' @ b"
    by (auto simp add: is_selected_iff startswith_iff contains_iff)
  then show False
    using rule_chars[OF r] by cases auto
qed

lemma counted_lines:
  "length (filter (\<lambda>s. \<not> is_header s) xs)
     = length (filter (\<lambda>s. s \<noteq> [] \<and> \<not> is_title s \<and> \<not> is_rule s) xs)
       + length (filter is_rule xs)"
proof (induction xs)
  case Nil
  then show ?case by simp
next
  case (Cons x xs)
  have "\<not> is_header x \<longleftrightarrow> x \<noteq> [] \<and> \<not> is_title x"
    by (simp add: is_header_def is_title_def)
  with Cons rule_not_header[of x] show ?case by auto
qed

lemma selected_rows:
  "filter is_selected (filter (\<lambda>s. \<not> is_header s) xs)
     = filter is_selected (filter (\<lambda>s. s \<noteq> [] \<and> \<not> is_title s \<and> \<not> is_rule s) xs)"
proof -
  have "(is_selected s \<and> \<not> is_header s)
          = (is_selected s \<and> s \<noteq> [] \<and> \<not> is_title s \<and> \<not> is_rule s)" for s
    using rule_not_selected[of s] by (auto simp add: is_header_def is_title_def)
  then show ?thesis by (simp add: conj_commute)
qed

text \<open>
  Claim C6, as stated, fails on the test of the selected row. The code also marks a row
  as selected when an asterisk followed by a space stands anywhere in it: a reference
  clock row, whose state indicator is \<open>#*\<close>, and a row whose name ends with an asterisk
  are both marked, although neither starts with \<open>^*\<close> nor has the marker as an isolated
  field.
\<close>

theorem selected_marker_counterexample:
  "is_selected refclock_row \<and> \<not> spec_selected refclock_row
   \<and> parse_sources refclock_row
       = \<lparr>has_selected = True, selected_line = Some refclock_row, total_sources = 1\<rparr>
   \<and> is_selected starred_name_row \<and> \<not> spec_selected starred_name_row"
  by code_simp

text \<open>
  Claim C6, amended. The data rows of a report are its lines, stripped of surrounding
  whitespace, that are neither blank nor a line of the header (the titles, which start
  with \<open>MS\<close> or \<open>Name/IP\<close>, and the rule of equals signs under them). For every report:
  each data row is counted in \<open>total_sources\<close>; a row is marked as selected iff it starts
  with \<open>^*\<close> or contains an asterisk followed by a space; \<open>has_selected\<close> says whether
  some data row is marked and \<open>selected_line\<close> is the last marked data row; when exactly
  one data row is marked, its stripped text is returned; a report without data rows has
  no selected row. For every report without a rule: \<open>total_sources\<close> is the number of
  data rows, so that a report without data rows gives zero. What the count is on a
  report with a rule is not part of this statement.
\<close>

theorem parse_sources_counts_and_selects:
  "length (data_rows text) \<le> total_sources (parse_sources text)
   \<and> (rule_lines text = [] \<longrightarrow> total_sources (parse_sources text) = length (data_rows text))
   \<and> has_selected (parse_sources text) = (filter is_selected (data_rows text) \<noteq> [])
   \<and> selected_line (parse_sources text)
       = (if filter is_selected (data_rows text) = [] then None
          else Some (last (filter is_selected (data_rows text))))
   \<and> (filter is_selected (data_rows text) = [s] \<longrightarrow>
        has_selected (parse_sources text) \<and> selected_line (parse_sources text) = Some s)
   \<and> (data_rows text = [] \<longrightarrow>
        \<not> has_selected (parse_sources text) \<and> selected_line (parse_sources text) = None)
   \<and> (data_rows text = [] \<and> rule_lines text = [] \<longrightarrow>
        parse_sources text
          = \<lparr>has_selected = False, selected_line = None, total_sources = 0\<rparr>)
   \<and> is_selected s = (startswith s ''^*'' \<or> contains s ''* '')"
proof -
  have t: "total_sources (parse_sources text)
             = length (data_rows text) + length (rule_lines text)"
    by (simp add: parse_sources_def data_rows_def rule_lines_def parse_sources_lines_total
        counted_lines)
  have h: "has_selected (parse_sources text) = (filter is_selected (data_rows text) \<noteq> [])"
    using parse_sources_lines_has_selected[of _ "splitlines text"]
      selected_rows[of "map strip (splitlines text)"]
    by (simp add: parse_sources_def data_rows_def)
  have l: "selected_line (parse_sources text)
       = (if filter is_selected (data_rows text) = [] then None
          else Some (last (filter is_selected (data_rows text))))"
    using parse_sources_lines_selected_line[of _ "splitlines text"]
      selected_rows[of "map strip (splitlines text)"]
    by (simp add: parse_sources_def data_rows_def)
  have e: "parse_sources text
          = \<lparr>has_selected = False, selected_line = None, total_sources = 0\<rparr>"
    if "data_rows text = []" and "rule_lines text = []"
    using that t h l by (cases "parse_sources text") simp
  show ?thesis
    using t h l e is_selected_iff[of s] by simp
qed

lemma one_selected_rows: "length (data_rows one_selected_report) = 2"
  by code_simp

lemma one_selected_marked:
  "filter is_selected (data_rows one_selected_report)
     = [''^* 10.0.0.1 1 6 377 21 +12us[ +15us] +/- 201us'']"
  by code_simp

lemma one_selected_no_rule: "rule_lines one_selected_report = []"
  by code_simp

lemma header_only_rows: "data_rows header_only_report = [] \<and> rule_lines header_only_report = []"
  by code_simp

lemma two_sources_marked:
  "filter is_selected (data_rows two_sources_report)
     = [''^* 10.0.0.1                      1   6   377    21    +12us[ +15us] +/-  201us'']"
  by code_simp

lemma no_sources_rows: "data_rows no_sources_report = []"
  by code_simp

text \<open>
  The witness: a report with the titles, a blank line and two rows, the first one marked
  and surrounded by spaces; a report with the titles and blank lines only; and the two
  reports with a rule, for the selected row.
\<close>

theorem parse_sources_counts_and_selects_witness:
  "total_sources (parse_sources one_selected_report) = 2
   \<and> has_selected (parse_sources one_selected_report)
   \<and> selected_line (parse_sources one_selected_report)
       = Some ''^* 10.0.0.1 1 6 377 21 +12us[ +15us] +/- 201us''
   \<and> parse_sources header_only_report
       = \<lparr>has_selected = False, selected_line = None, total_sources = 0\<rparr>
   \<and> has_selected (parse_sources two_sources_report)
   \<and> selected_line (parse_sources two_sources_report)
       = Some ''^* 10.0.0.1                      1   6   377    21    +12us[ +15us] +/-  201us''
   \<and> \<not> has_selected (parse_sources no_sources_report)
   \<and> selected_line (parse_sources no_sources_report) = None"
  using parse_sources_counts_and_selects[of one_selected_report
      "''^* 10.0.0.1 1 6 377 21 +12us[ +15us] +/- 201us''"]
    parse_sources_counts_and_selects[of header_only_report "[]"]
    parse_sources_counts_and_selects[of two_sources_report
      "''^* 10.0.0.1                      1   6   377    21    +12us[ +15us] +/-  201us''"]
    parse_sources_counts_and_selects[of no_sources_report "[]"]
  by (simp add: one_selected_rows one_selected_marked one_selected_no_rule header_only_rows
      two_sources_marked no_sources_rows)

text \<open>
  The rule itself is outside the amended claim. On a report as chronyc prints it the
  parser counts the rule as a source: it skips the titles and lets the line under them
  through. A host without any source is reported with one source, and the evaluation
  does not raise the problem of the missing sources.
\<close>

lemma parse_sources_counts_the_rule:
  "parse_sources no_sources_report
     = \<lparr>has_selected = False, selected_line = None, total_sources = 1\<rparr>
   \<and> total_sources (parse_sources two_sources_report) = 3
   \<and> health_problems demo_runtime demo_config good_tracking_sample
        (parse_sources no_sources_report) True
       = [''No selected NTP source in chronyc sources'']"
  by code_simp

subsection \<open>The fix-status parser\<close>

lemma gps_line_decode:
  "gps_line rt st raw =
     (case decode_line rt raw of
        None \<Rightarrow> Inr st
      | Some obj \<Rightarrow>
          if is_tpv obj then
            (case json_get obj ''mode'' of
               None \<Rightarrow>
                 Inr (st\<lparr>tpv_count := tpv_count st + 1,
                         last_time := py_or (json_get obj ''time'') (last_time st),
                         last_lat := py_or (json_get obj ''lat'') (last_lat st),
                         last_lon := py_or (json_get obj ''lon'') (last_lon st)\<rparr>)
             | Some mode \<Rightarrow>
                 (case ge2 mode of
                    Inl e \<Rightarrow> Inl e
                  | Inr b \<Rightarrow>
                      Inr (st\<lparr>tpv_count := tpv_count st + 1, last_mode := Some mode,
                              has_fix := b,
                              last_time := py_or (json_get obj ''time'') (last_time st),
                              last_lat := py_or (json_get obj ''lat'') (last_lat st),
                              last_lon := py_or (json_get obj ''lon'') (last_lon st)\<rparr>)))
          else Inr st)"
  by (auto simp add: gps_line_def decode_line_def is_tpv_def Let_def
      split: option.splits sum.splits)

lemma ge2_number: "is_number m \<Longrightarrow> ge2 m = Inr (mode_at_least_2 m)"
  by (cases m) (simp_all add: is_number_def mode_at_least_2_def)

lemma map_filter_Cons:
  "List.map_filter f (x # xs)
     = (case f x of None \<Rightarrow> List.map_filter f xs | Some y \<Rightarrow> y # List.map_filter f xs)"
  by (simp add: List.map_filter_def split: option.splits)

lemma map_filter_append:
  "List.map_filter f (xs @ ys) = List.map_filter f xs @ List.map_filter f ys"
  by (simp add: List.map_filter_def)

lemma tpv_of_lines_append:
  "tpv_of_lines rt (xs @ ys) = tpv_of_lines rt xs @ tpv_of_lines rt ys"
  by (simp add: tpv_of_lines_def map_filter_append)

lemma modes_of_lines_append:
  "modes_of_lines rt (xs @ ys) = modes_of_lines rt xs @ modes_of_lines rt ys"
  by (simp add: modes_of_lines_def tpv_of_lines_append map_filter_append)

lemma tpv_of_lines_single:
  "tpv_of_lines rt [raw]
     = (case decode_line rt raw of
          None \<Rightarrow> []
        | Some obj \<Rightarrow> if is_tpv obj then [obj] else [])"
  by (simp add: tpv_of_lines_def List.map_filter_def split: option.splits)

lemma modes_of_lines_single:
  "modes_of_lines rt [raw]
     = (case decode_line rt raw of
          None \<Rightarrow> []
        | Some obj \<Rightarrow>
            if is_tpv obj
            then (case json_get obj ''mode'' of None \<Rightarrow> [] | Some m \<Rightarrow> [m])
            else [])"
  by (simp add: modes_of_lines_def tpv_of_lines_single List.map_filter_def split: option.splits)

text \<open>One line of the stream: the state after it, when its mode (if any) is a number.\<close>

lemma gps_line_result:
  assumes "\<forall>m \<in> set (modes_of_lines rt [raw]). is_number m"
  shows "\<exists>st1. gps_line rt st raw = Inr st1
           \<and> tpv_count st1 = tpv_count st + length (tpv_of_lines rt [raw])
           \<and> last_mode st1
               = (if modes_of_lines rt [raw] = [] then last_mode st
                  else Some (last (modes_of_lines rt [raw])))
           \<and> has_fix st1
               = (if modes_of_lines rt [raw] = [] then has_fix st
                  else mode_at_least_2 (last (modes_of_lines rt [raw])))"
proof (cases "decode_line rt raw")
  case None
  then show ?thesis
    by (simp add: gps_line_decode tpv_of_lines_single modes_of_lines_single)
next
  case (Some obj)
  show ?thesis
  proof (cases "is_tpv obj")
    case False
    with Some show ?thesis
      by (simp add: gps_line_decode tpv_of_lines_single modes_of_lines_single)
  next
    case True
    show ?thesis
    proof (cases "json_get obj ''mode''")
      case None
      with Some True show ?thesis
        by (simp add: gps_line_decode tpv_of_lines_single modes_of_lines_single)
    next
      case m: (Some m)
      with assms Some True have "is_number m"
        by (simp add: modes_of_lines_single)
      with Some True m show ?thesis
        by (simp add: gps_line_decode tpv_of_lines_single modes_of_lines_single ge2_number)
    qed
  qed
qed

lemma gps_lines_result:
  assumes "\<forall>m \<in> set (modes_of_lines rt ls). is_number m"
  shows "\<exists>st'. gps_lines rt st ls = Inr st'
           \<and> tpv_count st' = tpv_count st + length (tpv_of_lines rt ls)
           \<and> last_mode st'
               = (if modes_of_lines rt ls = [] then last_mode st
                  else Some (last (modes_of_lines rt ls)))
           \<and> has_fix st'
               = (if modes_of_lines rt ls = [] then has_fix st
                  else mode_at_least_2 (last (modes_of_lines rt ls)))"
  using assms
proof (induction ls arbitrary: st)
  case Nil
  then show ?case by (simp add: modes_of_lines_def tpv_of_lines_def List.map_filter_def)
next
  case (Cons raw ls)
  have split: "modes_of_lines rt (raw # ls) = modes_of_lines rt [raw] @ modes_of_lines rt ls"
    "tpv_of_lines rt (raw # ls) = tpv_of_lines rt [raw] @ tpv_of_lines rt ls"
    using modes_of_lines_append[of rt "[raw]" ls] tpv_of_lines_append[of rt "[raw]" ls]
    by simp_all
  from Cons.prems have p1: "\<forall>m \<in> set (modes_of_lines rt [raw]). is_number m"
    and p2: "\<forall>m \<in> set (modes_of_lines rt ls). is_number m"
    by (simp_all add: split)
  from gps_line_result[OF p1, of st] obtain st1 where
    s1: "gps_line rt st raw = Inr st1"
    and c1: "tpv_count st1 = tpv_count st + length (tpv_of_lines rt [raw])"
    and m1: "last_mode st1
               = (if modes_of_lines rt [raw] = [] then last_mode st
                  else Some (last (modes_of_lines rt [raw])))"
    and f1: "has_fix st1
               = (if modes_of_lines rt [raw] = [] then has_fix st
                  else mode_at_least_2 (last (modes_of_lines rt [raw])))"
    by blast
  from Cons.IH[OF p2, of st1] obtain st' where
    s2: "gps_lines rt st1 ls = Inr st'"
    and c2: "tpv_count st' = tpv_count st1 + length (tpv_of_lines rt ls)"
    and m2: "last_mode st'
               = (if modes_of_lines rt ls = [] then last_mode st1
                  else Some (last (modes_of_lines rt ls)))"
    and f2: "has_fix st'
               = (if modes_of_lines rt ls = [] then has_fix st1
                  else mode_at_least_2 (last (modes_of_lines rt ls)))"
    by blast
  have "gps_lines rt st (raw # ls) = Inr st'"
    using s1 s2 by simp
  moreover have "tpv_count st' = tpv_count st + length (tpv_of_lines rt (raw # ls))"
    using c1 c2 by (simp add: split)
  moreover have "last_mode st'
               = (if modes_of_lines rt (raw # ls) = [] then last_mode st
                  else Some (last (modes_of_lines rt (raw # ls))))"
    using m1 m2 by (simp add: split)
  moreover have "has_fix st'
               = (if modes_of_lines rt (raw # ls) = [] then has_fix st
                  else mode_at_least_2 (last (modes_of_lines rt (raw # ls))))"
    using f1 f2 by (simp add: split)
  ultimately show ?case by blast
qed

lemma gps_result_summary: "fst (snd (gps_result rt st)) = [] \<longleftrightarrow> last_mode st = None"
  by (simp add: gps_result_def split: option.splits)

lemma gps_parse_numeric:
  assumes "\<forall>m \<in> set (tpv_modes rt text). is_number m"
  shows "\<exists>summary.
           parse_gpspipe_output rt text
             = Inr (tpv_modes rt text \<noteq> [] \<and> mode_at_least_2 (last (tpv_modes rt text)),
                    summary,
                    length (tpv_records rt text),
                    if tpv_modes rt text = [] then None else Some (last (tpv_modes rt text)))
           \<and> (summary = [] \<longleftrightarrow> tpv_modes rt text = [])"
proof -
  from assms have "\<forall>m \<in> set (modes_of_lines rt (splitlines text)). is_number m"
    by (simp add: tpv_modes_def)
  from gps_lines_result[OF this, of gps_init]
  obtain st' where s: "gps_lines rt gps_init (splitlines text) = Inr st'"
    and c: "tpv_count st' = tpv_count gps_init + length (tpv_of_lines rt (splitlines text))"
    and m: "last_mode st'
               = (if modes_of_lines rt (splitlines text) = [] then last_mode gps_init
                  else Some (last (modes_of_lines rt (splitlines text))))"
    and f: "has_fix st'
               = (if modes_of_lines rt (splitlines text) = [] then has_fix gps_init
                  else mode_at_least_2 (last (modes_of_lines rt (splitlines text))))"
    by blast
  have st: "gps_lines rt gps_init (splitlines text) = Inr st'"
    "tpv_count st' = length (tpv_records rt text)"
    "last_mode st'
       = (if tpv_modes rt text = [] then None else Some (last (tpv_modes rt text)))"
    "has_fix st'
       = (if tpv_modes rt text = [] then False else mode_at_least_2 (last (tpv_modes rt text)))"
    using s c m f by (simp_all add: gps_init_def tpv_modes_def tpv_records_def)
  show ?thesis
  proof (cases "tpv_modes rt text = []")
    case True
    with st show ?thesis
      by (simp add: parse_gpspipe_output_def gps_result_def)
  next
    case False
    with st show ?thesis
      by (simp add: parse_gpspipe_output_def gps_result_def)
  qed
qed

text \<open>
  Claim C4, as stated, fails on a fix report whose mode is not a number: the comparison
  \<open>mode >= 2\<close> stands outside the \<open>try\<close> and raises TypeError on a string, so the parser
  returns nothing, also when an earlier report had mode 3.
\<close>

theorem parse_gpspipe_output_string_mode_counterexample:
  "parse_gpspipe_output demo_runtime string_mode_stream = Inl (not_supported ''str'')
   \<and> tpv_modes demo_runtime string_mode_stream = [JInt 3, JStr ''3'']"
  by code_simp

text \<open>
  Claim C4, amended. For every stream in which each mode carried by a fix report is a
  number, the parser returns: lines that are blank, do not start with an opening brace or
  do not decode are skipped; \<open>tpv_count\<close> is the number of decoded records of class TPV;
  \<open>last_mode\<close> is the last mode carried by such a record (none when there is none), so
  the last one wins and not the best; \<open>has_fix\<close> holds iff there is a last mode and it is
  at least 2; and the summary is empty iff no mode was seen.
\<close>

theorem parse_gpspipe_output_last_mode:
  assumes "\<forall>m \<in> set (tpv_modes rt text). is_number m"
  shows "\<exists>summary.
           parse_gpspipe_output rt text
             = Inr (tpv_modes rt text \<noteq> [] \<and> mode_at_least_2 (last (tpv_modes rt text)),
                    summary,
                    length (tpv_records rt text),
                    if tpv_modes rt text = [] then None else Some (last (tpv_modes rt text)))
           \<and> (summary = [] \<longleftrightarrow> tpv_modes rt text = [])"
  using assms by (rule gps_parse_numeric)

lemma fix_then_noise_modes: "tpv_modes demo_runtime fix_then_noise = [JInt 1, JInt 3]"
  by code_simp

lemma fix_then_noise_count: "length (tpv_records demo_runtime fix_then_noise) = 2"
  by code_simp

lemma fix_then_lost_modes: "tpv_modes demo_runtime fix_then_lost = [JInt 3, JInt 1]"
  by code_simp

lemma fix_then_lost_count: "length (tpv_records demo_runtime fix_then_lost) = 2"
  by code_simp

text \<open>
  The witness: a stream whose last well-formed fix report has mode 3 and is followed by
  a truncated line gives \<open>has_fix\<close> and the last mode 3; a stream with mode 3 and then
  mode 1 gives no fix and the last mode 1.
\<close>

theorem parse_gpspipe_output_last_mode_witness:
  "(\<exists>summary. parse_gpspipe_output demo_runtime fix_then_noise
                 = Inr (True, summary, 2, Some (JInt 3)) \<and> summary \<noteq> [])
   \<and> (\<exists>summary. parse_gpspipe_output demo_runtime fix_then_lost
                 = Inr (False, summary, 2, Some (JInt 1)) \<and> summary \<noteq> [])"
proof -
  have a: "\<forall>m \<in> set (tpv_modes demo_runtime fix_then_noise). is_number m"
    by (simp add: fix_then_noise_modes is_number_def)
  have b: "\<forall>m \<in> set (tpv_modes demo_runtime fix_then_lost). is_number m"
    by (simp add: fix_then_lost_modes is_number_def)
  show ?thesis
    using parse_gpspipe_output_last_mode[OF a] parse_gpspipe_output_last_mode[OF b]
    by (simp add: fix_then_noise_modes fix_then_noise_count fix_then_lost_modes
        fix_then_lost_count mode_at_least_2_def)
qed

subsection \<open>The persisted fix mode\<close>

lemma db_insert_sample_row:
  assumes "DB_URL cfg = Some url" and "url \<noteq> []" and "db_fault ev = (\<lambda>row. None)"
  shows "db_insert_sample cfg ev t s gps_ok summary tr =
           tr @ [DbInsert \<lparr>col_last_offset_sec = last_offset_sec t,
                           col_stratum = stratum t,
                           col_total_sources = total_sources s,
                           col_leap_status = leap_status t,
                           col_gps_mode = (if gps_ok then ''3D fix'' else ''No fix''),
                           col_selected_source = selected_line s,
                           col_gps_summary = summary\<rparr>]"
  using assms by (simp add: db_insert_sample_def Let_def)

lemma fix2d_cycle:
  "last (cycle demo_runtime demo_config fix2d_env [])
     = DbInsert \<lparr>col_last_offset_sec = Some (Finite (1 / 512)),
                  col_stratum = Some 2,
                  col_total_sources = 1,
                  col_leap_status = Some ''Normal'',
                  col_gps_mode = ''3D fix'',
                  col_selected_source = selected_line good_sources_sample,
                  col_gps_summary = ''GPS(TPV): mode=2D fix''\<rparr>"
  by code_simp

text \<open>
  Claim C10. Every row that \<open>db_insert_sample\<close> adds has \<open>gps_mode\<close> equal to \<open>3D fix\<close>
  when \<open>gps_ok\<close> holds and to \<open>No fix\<close> otherwise, so the column holds one of these two
  strings and never the mode itself; with a database address and no database fault the
  row is inserted. When the fix reports of the persistence pass end with mode 2 (all
  modes being numbers), the pass inserts a row whose \<open>gps_mode\<close> is \<open>3D fix\<close>. (The mode
  name is part of the summary text, which goes to the \<open>gps_summary\<close> column.)
\<close>

theorem persisted_gps_mode:
  "(\<forall>row. DbInsert row \<in> set (db_insert_sample cfg ev t s gps_ok summary tr) \<longrightarrow>
       DbInsert row \<in> set tr
       \<or> col_gps_mode row = (if gps_ok then ''3D fix'' else ''No fix''))
   \<and> (DB_URL cfg = Some url \<and> url \<noteq> [] \<and> db_fault ev = (\<lambda>row. None) \<longrightarrow>
       (\<exists>row. db_insert_sample cfg ev t s gps_ok summary tr = tr @ [DbInsert row]
          \<and> col_gps_mode row = (if gps_ok then ''3D fix'' else ''No fix'')))
   \<and> (DB_URL cfg = Some url \<and> url \<noteq> [] \<and> db_fault ev = (\<lambda>row. None)
       \<and> remote ev (length (ssh_calls tr)) ''chronyc tracking'' = Completed trk
       \<and> parse_tracking rt (stdout trk) = Inr t
       \<and> remote ev (Suc (length (ssh_calls tr))) ''chronyc sources -n'' = Completed sr
       \<and> remote ev (Suc (Suc (length (ssh_calls tr)))) (remote_cmd cfg) = Completed cp
       \<and> returncode cp \<noteq> 127 \<and> \<not> contains (stderr cp) ''gpspipe-not-found''
       \<and> (\<forall>m \<in> set (tpv_modes rt (stdout cp @ stderr cp)). is_number m)
       \<and> tpv_modes rt (stdout cp @ stderr cp) \<noteq> []
       \<and> last (tpv_modes rt (stdout cp @ stderr cp)) = JInt 2 \<longrightarrow>
       (\<exists>row. collect_and_insert rt cfg ev tr = tr @ three_commands cfg @ [DbInsert row]
          \<and> col_gps_mode row = ''3D fix''))"
proof (intro conjI impI allI; (elim conjE)?)
  fix row
  assume "DbInsert row \<in> set (db_insert_sample cfg ev t s gps_ok summary tr)"
  then show "DbInsert row \<in> set tr
       \<or> col_gps_mode row = (if gps_ok then ''3D fix'' else ''No fix'')"
    by (auto simp add: db_insert_sample_def Let_def split: if_splits option.splits)
next
  assume "DB_URL cfg = Some url" and "url \<noteq> []" and "db_fault ev = (\<lambda>row. None)"
  then show "\<exists>row. db_insert_sample cfg ev t s gps_ok summary tr = tr @ [DbInsert row]
          \<and> col_gps_mode row = (if gps_ok then ''3D fix'' else ''No fix'')"
    by (simp add: db_insert_sample_row)
next
  assume db: "DB_URL cfg = Some url" "url \<noteq> []" "db_fault ev = (\<lambda>row. None)"
    and trk: "remote ev (length (ssh_calls tr)) ''chronyc tracking'' = Completed trk"
    and t: "parse_tracking rt (stdout trk) = Inr t"
    and sr: "remote ev (Suc (length (ssh_calls tr))) ''chronyc sources -n'' = Completed sr"
    and cp: "remote ev (Suc (Suc (length (ssh_calls tr)))) (remote_cmd cfg) = Completed cp"
      "returncode cp \<noteq> 127" "\<not> contains (stderr cp) ''gpspipe-not-found''"
    and num: "\<forall>m \<in> set (tpv_modes rt (stdout cp @ stderr cp)). is_number m"
    and ne: "tpv_modes rt (stdout cp @ stderr cp) \<noteq> []"
    and two: "last (tpv_modes rt (stdout cp @ stderr cp)) = JInt 2"
  from gps_parse_numeric[OF num] ne two obtain summary' where
    p: "parse_gpspipe_output rt (stdout cp @ stderr cp)
          = Inr (True, summary', length (tpv_records rt (stdout cp @ stderr cp)), Some (JInt 2))"
    and s: "summary' \<noteq> []"
    by (auto simp add: mode_at_least_2_def)
  let ?tr2 = "tr @ [Ssh ''chronyc tracking'' 10, Ssh ''chronyc sources -n'' 10]"
  have r1: "run_ssh ev ''chronyc tracking'' 10 tr = (Inr trk, tr @ [Ssh ''chronyc tracking'' 10])"
    using trk by (rule run_ssh_completed)
  have r2: "run_ssh ev ''chronyc sources -n'' 10 (tr @ [Ssh ''chronyc tracking'' 10])
              = (Inr sr, ?tr2)"
    using sr by (simp add: run_ssh_completed)
  have r3: "run_gps_status rt cfg ev ?tr2
              = (Inr (True, summary'), ?tr2 @ [Ssh (remote_cmd cfg) (CGPS_TIMEOUT_SEC cfg + 3)])"
    using cp p s by (intro run_gps_status_parsed) simp_all
  show "\<exists>row. collect_and_insert rt cfg ev tr = tr @ three_commands cfg @ [DbInsert row]
          \<and> col_gps_mode row = ''3D fix''"
    using r1 r2 r3 t db
    by (simp add: collect_and_insert_def Let_def db_insert_sample_row three_commands_def)
qed

lemma fix2d_modes:
  \<open>tpv_modes demo_runtime (lines [''{"class":"TPV","mode":2}''] @ []) = [JInt 2]\<close>
  by code_simp

lemma fix2d_remote:
  "remote fix2d_env n ''chronyc tracking''
     = Completed \<lparr>returncode = 0, stdout = good_tracking, stderr = []\<rparr>"
  "remote fix2d_env n ''chronyc sources -n''
     = Completed \<lparr>returncode = 0, stdout = good_sources, stderr = []\<rparr>"
  \<open>remote fix2d_env n (remote_cmd demo_config)
     = Completed \<lparr>returncode = 0, stdout = lines [''{"class":"TPV","mode":2}''], stderr = []\<rparr>\<close>
  "db_fault fix2d_env = (\<lambda>row. None)"
  by (simp_all add: fix2d_env_def exit0_def remote_cmd_def)

text \<open>
  The witness: on a host whose receiver reports mode 2, the persistence pass inserts a
  row with \<open>gps_mode = 3D fix\<close>, and so does the whole cycle, whose row carries the
  summary \<open>GPS(TPV): mode=2D fix\<close>.
\<close>

theorem persisted_gps_mode_witness:
  "(\<exists>row. collect_and_insert demo_runtime demo_config fix2d_env []
            = three_commands demo_config @ [DbInsert row]
          \<and> col_gps_mode row = ''3D fix'')
   \<and> (\<exists>row. last (cycle demo_runtime demo_config fix2d_env []) = DbInsert row
          \<and> col_gps_mode row = ''3D fix''
          \<and> col_gps_summary row = ''GPS(TPV): mode=2D fix'')"
proof -
  have db: "DB_URL demo_config = Some ''postgresql://db/ntp''"
    by (simp add: demo_config_def)
  have w1: "\<exists>row. collect_and_insert demo_runtime demo_config fix2d_env []
            = three_commands demo_config @ [DbInsert row]
          \<and> col_gps_mode row = ''3D fix''"
    using persisted_gps_mode[where rt=demo_runtime and cfg=demo_config and ev=fix2d_env
        and tr="[]" and url="''postgresql://db/ntp''" and t=good_tracking_sample
        and trk="\<lparr>returncode = 0, stdout = good_tracking, stderr = []\<rparr>"
        and sr="\<lparr>returncode = 0, stdout = good_sources, stderr = []\<rparr>"
        and cp="\<lparr>returncode = 0, stdout = lines [''{\"class\":\"TPV\",\"mode\":2}''], stderr = []\<rparr>",
        THEN conjunct2, THEN conjunct2]
      fix2d_modes
    by (simp add: db fix2d_remote good_tracking_parses is_number_def)
  have w2: "\<exists>row. last (cycle demo_runtime demo_config fix2d_env []) = DbInsert row
          \<and> col_gps_mode row = ''3D fix''
          \<and> col_gps_summary row = ''GPS(TPV): mode=2D fix''"
    by (simp add: fix2d_cycle)
  show ?thesis
    using w1 w2 by simp
qed

subsection \<open>Whitespace, lines and tokens\<close>





lemma strip_Nil [simp]: "strip [] = []"
  by (simp add: strip_def)










subsection \<open>Integers printed and parsed back\<close>



















subsection \<open>The tracking parser on the lines of a written report\<close>














subsection \<open>The fields that the tracking parser returns\<close>






subsection \<open>The tracking parser on a well-formed report\<close>











subsection \<open>The round trip of a tracking report\<close>










lemma untidy_tracking_parses:
  "parse_tracking demo_runtime untidy_tracking = Inr untidy_tracking_sample"
  by code_simp


end
